theory Spec2Isabelle
  imports Main "HOL-Library.Char_ord"
begin

section \<open>Data model of install/autodetect.go\<close>

text \<open>
  Modelled from the spec: \<open>k8s.Kind\<close> is declared in package \<open>k8s\<close>, outside
  \<open>install/autodetect.go\<close>. The file names six of its values; the spec calls the
  enumeration closed but extensible, so every further value is \<open>KindOther n\<close>.
\<close>

datatype Kind =
  KindUnknown | KindMinikube | KindKind | KindEKS | KindGKE | KindAKS | KindOther nat

text \<open>
  \<open>k8s.Flavor\<close>: the file reads \<open>k.flavor.Kind\<close> and \<open>k.flavor.ClusterName\<close>.
  The second field is called \<open>FlavorClusterName\<close> here, since \<open>ClusterName\<close> is
  also a field of \<open>Parameters\<close>.
\<close>

record Flavor =
  Kind :: Kind
  FlavorClusterName :: string

record AzureParameters =
  IsBYOCNI :: bool

text \<open>The fields of \<open>Parameters\<close> that the file reads or writes.\<close>

record Parameters =
  DisableChecks :: "string list"
  DatapathMode :: string
  KubeProxyReplacement :: string
  ClusterName :: string
  Encryption :: string
  IPAM :: string
  Azure :: AzureParameters

record K8sInstaller =
  params :: Parameters
  flavor :: Flavor
  chartVersion :: string

text \<open>
  Errors as values. \<open>External\<close> stands for an error made outside the file (by a
  check or by the Azure lookup); \<open>ValidationCheckFailed kind err\<close> is
  \<open>fmt.Errorf("validation check for kind %q failed: %w", kind, err)\<close>; the other
  three are the \<open>fmt.Errorf\<close> values of lines 151, 156 and 166.
\<close>

datatype error =
  External string
| ValidationCheckFailed Kind error
| InvalidClusterNameDots
| InvalidClusterName
| InvalidEncryptionMode

text \<open>
  What a run does besides changing the installer: one constructor for each \<open>k.Log\<close>
  call of the file, carrying the arguments of the format string, and \<open>CheckCall name\<close>
  for an invocation of the \<open>Check\<close> method of the check with that name.
\<close>

datatype event =
  LogKind Kind
| LogCustomDatapath string
| LogKPRDisabled
| LogDetectedDatapath string
| LogRunningChecks Kind
| LogSkipCheck string
| CheckCall string
| LogCheckFailed string error
| LogDisableHint string
| LogVersion string
| LogDetectedClusterName string
| LogCustomIPAM string
| LogClusterNameDots string
| LogClusterNameInvalid string
| LogInvalidEncryption string

text \<open>
  The interface \<open>validationCheck\<close> (lines 15 to 18). Its implementations are outside
  the file; the spec describes them as stateless, so \<open>Check\<close> reads the installer and
  returns \<open>None\<close> for \<open>nil\<close>.
\<close>

record validationCheck =
  Name :: string
  Check :: "K8sInstaller \<Rightarrow> error option"

text \<open>
  Everything the file uses and does not declare: the flavor the client detects, the
  Azure lookup behind \<open>azureAutodetect\<close>, the five datapath constants and the three
  check implementations that the registry holds.
\<close>

record env =
  AutodetectFlavor :: Flavor
  azureLookup :: "K8sInstaller \<Rightarrow> error option \<times> AzureParameters"
  DatapathTunnel :: string
  DatapathAwsENI :: string
  DatapathGKE :: string
  DatapathAzure :: string
  DatapathAKSBYOCNI :: string
  minikubeVersionValidation :: validationCheck
  kindVersionValidation :: validationCheck
  azureVersionValidation :: validationCheck

text \<open>
  Modelled from the spec: the constants \<open>encryptionDisabled\<close>, \<open>encryptionIPsec\<close>
  and \<open>encryptionWireguard\<close> are declared outside the file; the spec gives their
  values as "disabled", "ipsec" and "wireguard".
\<close>

definition encryptionDisabled :: string where
  "encryptionDisabled = ''disabled''"

definition encryptionIPsec :: string where
  "encryptionIPsec = ''ipsec''"

definition encryptionWireguard :: string where
  "encryptionWireguard = ''wireguard''"

section \<open>Regular expressions\<close>

text \<open>
  The part of Go's \<open>regexp\<close> syntax that the pattern of line 33 uses: a character
  class of ranges, concatenation, \<open>*\<close> and a capture group. \<open>Fail\<close> and \<open>Eps\<close>
  (no string, the empty string) and \<open>Alt\<close> only arise as derivatives. The classes
  of the pattern hold ASCII characters only, so matching bytes is matching runes.
\<close>

datatype regex =
  Fail
| Eps
| Class "(char \<times> char) list"
| Cat regex regex
| Alt regex regex
| Rep regex
| Group regex

fun inClass :: "(char \<times> char) list \<Rightarrow> char \<Rightarrow> bool" where
  "inClass [] c = False"
| "inClass ((lo, hi) # rs) c = ((lo \<le> c \<and> c \<le> hi) \<or> inClass rs c)"

fun nullable :: "regex \<Rightarrow> bool" where
  "nullable Fail = False"
| "nullable Eps = True"
| "nullable (Class rs) = False"
| "nullable (Cat r s) = (nullable r \<and> nullable s)"
| "nullable (Alt r s) = (nullable r \<or> nullable s)"
| "nullable (Rep r) = True"
| "nullable (Group r) = nullable r"

fun deriv :: "char \<Rightarrow> regex \<Rightarrow> regex" where
  "deriv c Fail = Fail"
| "deriv c Eps = Fail"
| "deriv c (Class rs) = (if inClass rs c then Eps else Fail)"
| "deriv c (Cat r s) =
     (if nullable r then Alt (Cat (deriv c r) s) (deriv c s) else Cat (deriv c r) s)"
| "deriv c (Alt r s) = Alt (deriv c r) (deriv c s)"
| "deriv c (Rep r) = Cat (deriv c r) (Rep r)"
| "deriv c (Group r) = deriv c r"

text \<open>Whether the whole string matches: the pattern is anchored by \<open>^\<close> and \<open>$\<close>.\<close>

fun matches :: "regex \<Rightarrow> string \<Rightarrow> bool" where
  "matches r [] = nullable r"
| "matches r (c # cs) = matches (deriv c r) cs"

text \<open>
  Line 33: \<open>^[a-z0-9]([-a-z0-9]*[a-z0-9])$\<close>. Without the flag \<open>m\<close>, \<open>^\<close> and
  \<open>$\<close> stand for the two ends of the text, so \<open>MatchString\<close> holds when the
  whole name matches what is between them.
\<close>

definition clusterNameValidation :: regex where
  "clusterNameValidation =
     Cat (Class [(CHR ''a'', CHR ''z''), (CHR ''0'', CHR ''9'')])
         (Group (Cat (Rep (Class [(CHR ''-'', CHR ''-''), (CHR ''a'', CHR ''z''),
                                  (CHR ''0'', CHR ''9'')]))
                     (Class [(CHR ''a'', CHR ''z''), (CHR ''0'', CHR ''9'')])))"

definition MatchString :: "regex \<Rightarrow> string \<Rightarrow> bool" where
  "MatchString r s = matches r s"

section \<open>String helpers\<close>

text \<open>
  \<open>strings.Contains(s, ".")\<close> and \<open>strings.ReplaceAll(s, "_", "-")\<close>: both are
  called with a one-character pattern, which the models take as a character.
\<close>

fun Contains :: "string \<Rightarrow> char \<Rightarrow> bool" where
  "Contains [] c = False"
| "Contains (x # xs) c = (if x = c then True else Contains xs c)"

fun ReplaceAll :: "string \<Rightarrow> char \<Rightarrow> string \<Rightarrow> string" where
  "ReplaceAll [] old new = []"
| "ReplaceAll (x # xs) old new =
     (if x = old then new @ ReplaceAll xs old new else x # ReplaceAll xs old new)"

section \<open>The operations\<close>

text \<open>Lines 36 to 43.\<close>

fun checkDisabled_loop :: "string list \<Rightarrow> string \<Rightarrow> bool" where
  "checkDisabled_loop [] name = False"
| "checkDisabled_loop (n # ns) name = (if n = name then True else checkDisabled_loop ns name)"

definition checkDisabled :: "Parameters \<Rightarrow> string \<Rightarrow> bool" where
  "checkDisabled p name = checkDisabled_loop (DisableChecks p) name"

text \<open>
  Lines 21 to 31: the initial value of the package variable \<open>validationChecks\<close>.
  A Go map gives the zero value, a \<open>nil\<close> slice, for a key it does not hold.
\<close>

definition validationChecks :: "env \<Rightarrow> Kind \<rightharpoonup> validationCheck list" where
  "validationChecks e =
     [KindMinikube \<mapsto> [minikubeVersionValidation e],
      KindKind \<mapsto> [kindVersionValidation e],
      KindAKS \<mapsto> [azureVersionValidation e]]"

definition lookupChecks :: "(Kind \<rightharpoonup> validationCheck list) \<Rightarrow> Kind \<Rightarrow> validationCheck list" where
  "lookupChecks reg kind = (case reg kind of None \<Rightarrow> [] | Some cs \<Rightarrow> cs)"

text \<open>Lines 101 to 107.\<close>

definition autodetect :: "env \<Rightarrow> K8sInstaller \<Rightarrow> K8sInstaller \<times> event list" where
  "autodetect e k =
     (let k1 = k\<lparr>flavor := AutodetectFlavor e\<rparr>
      in (k1, if Kind (flavor k1) \<noteq> KindUnknown then [LogKind (Kind (flavor k1))] else []))"

text \<open>
  Modelled from the spec: \<open>azureAutodetect\<close> is a method of the installer defined
  outside the file. The spec describes a fallible lookup that fills the BYOCNI flag of
  the nested Azure configuration; here the lookup of the environment returns the error
  and the Azure configuration it leaves behind.
\<close>

definition azureAutodetect :: "env \<Rightarrow> K8sInstaller \<Rightarrow> error option \<times> K8sInstaller" where
  "azureAutodetect e k =
     (case azureLookup e k of (err, az) \<Rightarrow> (err, k\<lparr>params := (params k)\<lparr>Azure := az\<rparr>\<rparr>))"

definition setDatapathMode :: "string \<Rightarrow> K8sInstaller \<Rightarrow> K8sInstaller" where
  "setDatapathMode m k = k\<lparr>params := (params k)\<lparr>DatapathMode := m\<rparr>\<rparr>"

text \<open>Lines 63 to 66, and again 87 to 90.\<close>

definition disableKPR :: "bool \<Rightarrow> K8sInstaller \<Rightarrow> K8sInstaller \<times> event list" where
  "disableKPR withKPR k =
     (if withKPR \<and> KubeProxyReplacement (params k) = []
      then (k\<lparr>params := (params k)\<lparr>KubeProxyReplacement := ''disabled''\<rparr>\<rparr>, [LogKPRDisabled])
      else (k, []))"

text \<open>Lines 95 to 98.\<close>

definition detected :: "K8sInstaller \<times> event list \<Rightarrow> error option \<times> K8sInstaller \<times> event list" where
  "detected r =
     (case r of (k, evs) \<Rightarrow>
        (None, k,
         evs @ (if DatapathMode (params k) \<noteq> []
                then [LogDetectedDatapath (DatapathMode (params k))] else [])))"

text \<open>Lines 53 to 99.\<close>

definition detectDatapathMode ::
  "env \<Rightarrow> bool \<Rightarrow> K8sInstaller \<Rightarrow> error option \<times> K8sInstaller \<times> event list" where
  "detectDatapathMode e withKPR k =
     (if DatapathMode (params k) \<noteq> []
      then (None, k, [LogCustomDatapath (DatapathMode (params k))])
      else
        (case Kind (flavor k) of
           KindKind \<Rightarrow> detected (disableKPR withKPR (setDatapathMode (DatapathTunnel e) k))
         | KindMinikube \<Rightarrow> detected (setDatapathMode (DatapathTunnel e) k, [])
         | KindEKS \<Rightarrow> detected (setDatapathMode (DatapathAwsENI e) k, [])
         | KindGKE \<Rightarrow> detected (setDatapathMode (DatapathGKE e) k, [])
         | KindAKS \<Rightarrow>
             (case azureAutodetect e k of
                (Some err, k1) \<Rightarrow> (Some err, k1, [])
              | (None, k1) \<Rightarrow>
                  detected (disableKPR withKPR
                    (setDatapathMode
                       (if IsBYOCNI (Azure (params k1)) then DatapathAKSBYOCNI e
                        else DatapathAzure e) k1)))
         | _ \<Rightarrow> detected (setDatapathMode (DatapathTunnel e) k, [])))"

text \<open>
  Lines 114 to 126, the loop over the checks of the flavor. A check changes nothing
  in the installer, so the loop returns the error and the events only.
\<close>

fun runChecks :: "K8sInstaller \<Rightarrow> validationCheck list \<Rightarrow> error option \<times> event list" where
  "runChecks k [] = (None, [])"
| "runChecks k (c # cs) =
     (if checkDisabled (params k) (Name c)
      then (case runChecks k cs of (r, evs) \<Rightarrow> (r, LogSkipCheck (Name c) # evs))
      else
        (case Check c k of
           Some err \<Rightarrow>
             (Some (ValidationCheckFailed (Kind (flavor k)) err),
              [CheckCall (Name c), LogCheckFailed (Name c) err, LogDisableHint (Name c)])
         | None \<Rightarrow> (case runChecks k cs of (r, evs) \<Rightarrow> (r, CheckCall (Name c) # evs))))"

text \<open>Lines 112 to 127. The registry is the package variable, passed as an argument.\<close>

definition runValidationChecks ::
  "(Kind \<rightharpoonup> validationCheck list) \<Rightarrow> K8sInstaller \<Rightarrow> error option \<times> event list" where
  "runValidationChecks reg k =
     (if length (lookupChecks reg (Kind (flavor k))) > 0
      then (case runChecks k (lookupChecks reg (Kind (flavor k))) of
              (r, evs) \<Rightarrow> (r, LogRunningChecks (Kind (flavor k)) # evs))
      else (None, []))"

text \<open>Lines 131 to 137.\<close>

definition adoptClusterName :: "K8sInstaller \<Rightarrow> K8sInstaller \<times> event list" where
  "adoptClusterName k =
     (if ClusterName (params k) = [] \<and> FlavorClusterName (flavor k) \<noteq> []
      then (let name = ReplaceAll (FlavorClusterName (flavor k)) (CHR ''_'') ''-''
            in (k\<lparr>params := (params k)\<lparr>ClusterName := name\<rparr>\<rparr>, [LogDetectedClusterName name]))
      else (k, []))"

text \<open>Lines 149 to 157.\<close>

definition clusterNameGate :: "K8sInstaller \<Rightarrow> error option \<times> event list" where
  "clusterNameGate k =
     (if Contains (ClusterName (params k)) (CHR ''.'')
      then (Some InvalidClusterNameDots, [LogClusterNameDots (ClusterName (params k))])
      else if \<not> MatchString clusterNameValidation (ClusterName (params k))
      then (Some InvalidClusterName, [LogClusterNameInvalid (ClusterName (params k))])
      else (None, []))"

text \<open>Lines 159 to 167.\<close>

definition encryptionGate :: "K8sInstaller \<Rightarrow> error option \<times> event list" where
  "encryptionGate k =
     (if Encryption (params k) = encryptionDisabled
         \<or> Encryption (params k) = encryptionIPsec
         \<or> Encryption (params k) = encryptionWireguard
      then (None, [])
      else (Some InvalidEncryptionMode, [LogInvalidEncryption (Encryption (params k))]))"

text \<open>Lines 145 to 147.\<close>

definition logIPAM :: "K8sInstaller \<Rightarrow> event list" where
  "logIPAM k = (if IPAM (params k) \<noteq> [] then [LogCustomIPAM (IPAM (params k))] else [])"

text \<open>
  Lines 109 to 170. The result is the returned error, the installer as the call leaves
  it, and the events in the order they happen.
\<close>

definition autodetectAndValidate ::
  "(Kind \<rightharpoonup> validationCheck list) \<Rightarrow> env \<Rightarrow> K8sInstaller
     \<Rightarrow> error option \<times> K8sInstaller \<times> event list" where
  "autodetectAndValidate reg e k =
     (case autodetect e k of (k1, l1) \<Rightarrow>
      (case runValidationChecks reg k1 of
         (Some err, l2) \<Rightarrow> (Some err, k1, l1 @ l2)
       | (None, l2) \<Rightarrow>
           (case adoptClusterName k1 of (k2, l3) \<Rightarrow>
            (case detectDatapathMode e True k2 of
               (Some err, k3, l4) \<Rightarrow>
                 (Some err, k3, l1 @ l2 @ [LogVersion (chartVersion k1)] @ l3 @ l4)
             | (None, k3, l4) \<Rightarrow>
                 (case clusterNameGate k3 of
                    (Some err, l5) \<Rightarrow>
                      (Some err, k3,
                       l1 @ l2 @ [LogVersion (chartVersion k1)] @ l3 @ l4 @ logIPAM k3 @ l5)
                  | (None, l5) \<Rightarrow>
                      (case encryptionGate k3 of (r, l6) \<Rightarrow>
                         (r, k3,
                          l1 @ l2 @ [LogVersion (chartVersion k1)] @ l3 @ l4
                            @ logIPAM k3 @ l5 @ l6)))))))"

section \<open>The meaning of the regular expressions\<close>

text \<open>
  The strings of a regular expression, to compare the matcher with; \<open>repeat L\<close>
  holds the concatenations of any number of strings of \<open>L\<close>.
\<close>

inductive_set repeat :: "string set \<Rightarrow> string set" for L :: "string set" where
  repeat_empty: "[] \<in> repeat L"
| repeat_more: "u \<in> L \<Longrightarrow> v \<in> repeat L \<Longrightarrow> u @ v \<in> repeat L"

fun language :: "regex \<Rightarrow> string set" where
  "language Fail = {}"
| "language Eps = {[]}"
| "language (Class rs) = {[c] | c. inClass rs c}"
| "language (Cat r s) = {u @ v | u v. u \<in> language r \<and> v \<in> language s}"
| "language (Alt r s) = language r \<union> language s"
| "language (Rep r) = repeat (language r)"
| "language (Group r) = language r"

text \<open>The class \<open>[a-z0-9]\<close>.\<close>

definition lowerOrDigit :: "char \<Rightarrow> bool" where
  "lowerOrDigit c = ((CHR ''a'' \<le> c \<and> c \<le> CHR ''z'') \<or> (CHR ''0'' \<le> c \<and> c \<le> CHR ''9''))"

section \<open>Notions used in the statements\<close>

text \<open>The events that only the two gates of lines 149 to 167 produce.\<close>

fun gateEvent :: "event \<Rightarrow> bool" where
  "gateEvent (LogClusterNameDots s) = True"
| "gateEvent (LogClusterNameInvalid s) = True"
| "gateEvent (LogInvalidEncryption s) = True"
| "gateEvent ev = False"

text \<open>
  The event of one step of the loop over the checks when the check does not fail: the
  skip notice for a disabled check, the call for the others.
\<close>

definition skipOrCall :: "Parameters \<Rightarrow> validationCheck \<Rightarrow> event" where
  "skipOrCall p c = (if checkDisabled p (Name c) then LogSkipCheck (Name c) else CheckCall (Name c))"

text \<open>The installer with one more name in \<open>DisableChecks\<close>.\<close>

definition withDisabledCheck :: "string \<Rightarrow> K8sInstaller \<Rightarrow> K8sInstaller" where
  "withDisabledCheck n k = k\<lparr>params := (params k)\<lparr>DisableChecks := DisableChecks (params k) @ [n]\<rparr>\<rparr>"

section \<open>Example inputs\<close>

text \<open>
  Concrete checks, environments and installers on which the theorems below are
  evaluated. The strings of the example environment stand for values the file does
  not declare.
\<close>

definition passCheck :: "string \<Rightarrow> validationCheck" where
  "passCheck n = \<lparr>Name = n, Check = (\<lambda>k. None)\<rparr>"

definition failCheck :: "string \<Rightarrow> error \<Rightarrow> validationCheck" where
  "failCheck n err = \<lparr>Name = n, Check = (\<lambda>k. Some err)\<rparr>"

definition exampleEnv :: "Kind \<Rightarrow> string \<Rightarrow> error option \<Rightarrow> bool \<Rightarrow> env" where
  "exampleEnv kind name lookupErr byocni =
     \<lparr>AutodetectFlavor = \<lparr>Kind = kind, FlavorClusterName = name\<rparr>,
      azureLookup = (\<lambda>k. (lookupErr, \<lparr>IsBYOCNI = byocni\<rparr>)),
      DatapathTunnel = ''tunnel'',
      DatapathAwsENI = ''aws-eni'',
      DatapathGKE = ''gke'',
      DatapathAzure = ''azure'',
      DatapathAKSBYOCNI = ''aks-byocni'',
      minikubeVersionValidation = passCheck ''minikube-version'',
      kindVersionValidation = passCheck ''kind-version'',
      azureVersionValidation = passCheck ''az-binary''\<rparr>"

definition exampleParams :: Parameters where
  "exampleParams =
     \<lparr>DisableChecks = [], DatapathMode = [], KubeProxyReplacement = [], ClusterName = [],
      Encryption = ''disabled'', IPAM = [], Azure = \<lparr>IsBYOCNI = False\<rparr>\<rparr>"

definition exampleInstaller :: "Kind \<Rightarrow> Parameters \<Rightarrow> K8sInstaller" where
  "exampleInstaller kind p =
     \<lparr>params = p, flavor = \<lparr>Kind = kind, FlavorClusterName = []\<rparr>,
      chartVersion = ''1.12.0''\<rparr>"

definition exampleRegistry :: "validationCheck list \<Rightarrow> Kind \<rightharpoonup> validationCheck list" where
  "exampleRegistry cs = [KindMinikube \<mapsto> cs]"

definition presetParams :: Parameters where
  "presetParams = exampleParams\<lparr>DatapathMode := ''gke'', KubeProxyReplacement := ''strict'',
     ClusterName := ''prod''\<rparr>"

definition badGateParams :: Parameters where
  "badGateParams = exampleParams\<lparr>ClusterName := ''Bad.Name'', Encryption := ''aes''\<rparr>"

definition threeChecks :: "validationCheck list" where
  "threeChecks = [passCheck ''zero'', failCheck ''first'' (External ''too old''),
     failCheck ''second'' (External ''other'')]"

definition disabledParams :: Parameters where
  "disabledParams = exampleParams\<lparr>DisableChecks := [''minikube-version''], ClusterName := ''dev''\<rparr>"

definition oldMinikube :: "validationCheck list" where
  "oldMinikube = [failCheck ''minikube-version'' (External ''too old'')]"

text \<open>The error of the cluster-name gate on an installer with the given name.\<close>

definition gateOn :: "string \<Rightarrow> error option" where
  "gateOn name =
     fst (clusterNameGate (exampleInstaller KindUnknown (exampleParams\<lparr>ClusterName := name\<rparr>)))"

lemmas example_defs = passCheck_def failCheck_def exampleEnv_def exampleParams_def
  exampleInstaller_def exampleRegistry_def

section \<open>Facts about the stages\<close>

lemma checkDisabled_loop_iff: "checkDisabled_loop ns n \<longleftrightarrow> n \<in> set ns"
  by (induction ns) auto

lemma checkDisabled_iff: "checkDisabled p n \<longleftrightarrow> n \<in> set (DisableChecks p)"
  by (simp add: checkDisabled_def checkDisabled_loop_iff)

lemmas dm_defs = detectDatapathMode_def detected_def disableKPR_def setDatapathMode_def
  azureAutodetect_def

lemma detectDatapathMode_custom:
  "DatapathMode (params k) \<noteq> [] \<Longrightarrow>
   detectDatapathMode e w k = (None, k, [LogCustomDatapath (DatapathMode (params k))])"
  by (simp add: detectDatapathMode_def)

lemma detectDatapathMode_ClusterName:
  "ClusterName (params (fst (snd (detectDatapathMode e w k)))) = ClusterName (params k)"
  by (auto simp: dm_defs split: Kind.splits prod.splits option.splits)

lemma detectDatapathMode_KPR:
  "KubeProxyReplacement (params k) \<noteq> [] \<Longrightarrow>
   KubeProxyReplacement (params (fst (snd (detectDatapathMode e w k))))
     = KubeProxyReplacement (params k)"
  by (auto simp: dm_defs split: Kind.splits prod.splits option.splits)

lemma detectDatapathMode_Encryption:
  "Encryption (params (fst (snd (detectDatapathMode e w k)))) = Encryption (params k)"
  by (auto simp: dm_defs split: Kind.splits prod.splits option.splits)

lemma detectDatapathMode_DisableChecks:
  "DisableChecks (params (fst (snd (detectDatapathMode e w k)))) = DisableChecks (params k)"
  by (auto simp: dm_defs split: Kind.splits prod.splits option.splits)

lemma detectDatapathMode_flavor:
  "flavor (fst (snd (detectDatapathMode e w k))) = flavor k"
  by (auto simp: dm_defs split: Kind.splits prod.splits option.splits)

lemma detectDatapathMode_events:
  "CheckCall n \<notin> set (snd (snd (detectDatapathMode e w k)))"
  by (auto simp: dm_defs split: Kind.splits prod.splits option.splits)

lemma adoptClusterName_events: "CheckCall n \<notin> set (snd (adoptClusterName k))"
  by (simp add: adoptClusterName_def Let_def)

lemma autodetect_events: "CheckCall n \<notin> set (snd (autodetect e k))"
  by (simp add: autodetect_def Let_def)

lemma clusterNameGate_events: "CheckCall n \<notin> set (snd (clusterNameGate k))"
  by (simp add: clusterNameGate_def)

lemma encryptionGate_events: "CheckCall n \<notin> set (snd (encryptionGate k))"
  by (simp add: encryptionGate_def)

lemma logIPAM_events: "CheckCall n \<notin> set (logIPAM k)"
  by (simp add: logIPAM_def)

lemma autodetect_fst: "fst (autodetect e k) = k\<lparr>flavor := AutodetectFlavor e\<rparr>"
  by (simp add: autodetect_def Let_def)

lemma adoptClusterName_params:
  "params (fst (adoptClusterName k)) =
     (params k)\<lparr>ClusterName :=
        (if ClusterName (params k) = [] \<and> FlavorClusterName (flavor k) \<noteq> []
         then ReplaceAll (FlavorClusterName (flavor k)) (CHR ''_'') ''-''
         else ClusterName (params k))\<rparr>"
  by (simp add: adoptClusterName_def Let_def)

lemma adoptClusterName_flavor: "flavor (fst (adoptClusterName k)) = flavor k"
  by (simp add: adoptClusterName_def Let_def)

text \<open>The installer that a call leaves, and the error it returns, stage by stage.\<close>

lemma autodetectAndValidate_state:
  "fst (snd (autodetectAndValidate reg e k)) =
     (if fst (runValidationChecks reg (fst (autodetect e k))) \<noteq> None
      then fst (autodetect e k)
      else fst (snd (detectDatapathMode e True (fst (adoptClusterName (fst (autodetect e k)))))))"
  by (auto simp: autodetectAndValidate_def split: prod.splits option.splits)

lemma autodetectAndValidate_error:
  "fst (autodetectAndValidate reg e k) =
     (let k1 = fst (autodetect e k);
          k3 = fst (snd (detectDatapathMode e True (fst (adoptClusterName k1))))
      in case fst (runValidationChecks reg k1) of
           Some err \<Rightarrow> Some err
         | None \<Rightarrow>
             (case fst (detectDatapathMode e True (fst (adoptClusterName k1))) of
                Some err \<Rightarrow> Some err
              | None \<Rightarrow>
                  (case fst (clusterNameGate k3) of
                     Some err \<Rightarrow> Some err
                   | None \<Rightarrow> fst (encryptionGate k3))))"
  by (auto simp: autodetectAndValidate_def Let_def split: prod.splits option.splits)

lemma autodetectAndValidate_CheckCall:
  "CheckCall n \<in> set (snd (snd (autodetectAndValidate reg e k))) \<Longrightarrow>
   CheckCall n \<in> set (snd (runValidationChecks reg (fst (autodetect e k))))"
  using autodetect_events [of n e k]
    adoptClusterName_events [of n "fst (autodetect e k)"]
    detectDatapathMode_events [of n e True "fst (adoptClusterName (fst (autodetect e k)))"]
    clusterNameGate_events [of n "fst (snd (detectDatapathMode e True
      (fst (adoptClusterName (fst (autodetect e k))))))"]
    encryptionGate_events [of n "fst (snd (detectDatapathMode e True
      (fst (adoptClusterName (fst (autodetect e k))))))"]
    logIPAM_events [of n "fst (snd (detectDatapathMode e True
      (fst (adoptClusterName (fst (autodetect e k))))))"]
  by (auto simp: autodetectAndValidate_def split: prod.splits option.splits)

section \<open>The encryption gate\<close>

text \<open>
  C9. The encryption gate (lines 159 to 167) returns no error exactly when
  \<open>Encryption\<close> is one of "disabled", "ipsec" and "wireguard"; for every other
  string, among them "aes", the empty string and the same words in another case, it
  returns the invalid-encryption-mode error. A call of \<open>autodetectAndValidate\<close> that
  returns no error was therefore given one of the three values.
\<close>

theorem encryption_gate_closed_set:
  "(fst (encryptionGate k) = None \<longleftrightarrow>
      Encryption (params k) \<in> {''disabled'', ''ipsec'', ''wireguard''})
   \<and> (fst (encryptionGate k) \<noteq> None \<longrightarrow> fst (encryptionGate k) = Some InvalidEncryptionMode)
   \<and> (Encryption (params k) \<in> {''aes'', ''Disabled'', ''IPsec'', ''IPSEC'', ''WireGuard'', []}
        \<longrightarrow> fst (encryptionGate k) = Some InvalidEncryptionMode)
   \<and> (fst (autodetectAndValidate reg e k) = None \<longrightarrow>
        Encryption (params k) \<in> {''disabled'', ''ipsec'', ''wireguard''})"
proof -
  have gate: "\<And>k. fst (encryptionGate k) = None \<longleftrightarrow>
      Encryption (params k) \<in> {''disabled'', ''ipsec'', ''wireguard''}"
    by (auto simp: encryptionGate_def encryptionDisabled_def encryptionIPsec_def
        encryptionWireguard_def)
  have err: "fst (encryptionGate k) \<noteq> None \<longrightarrow>
      fst (encryptionGate k) = Some InvalidEncryptionMode"
    by (simp add: encryptionGate_def)
  have bad: "Encryption (params k) \<in> {''aes'', ''Disabled'', ''IPsec'', ''IPSEC'', ''WireGuard'', []}
        \<longrightarrow> fst (encryptionGate k) = Some InvalidEncryptionMode"
    by (auto simp: encryptionGate_def encryptionDisabled_def encryptionIPsec_def
        encryptionWireguard_def)
  have whole: "fst (autodetectAndValidate reg e k) = None \<longrightarrow>
        Encryption (params k) \<in> {''disabled'', ''ipsec'', ''wireguard''}"
  proof
    assume ok: "fst (autodetectAndValidate reg e k) = None"
    let ?k3 = "fst (snd (detectDatapathMode e True
      (fst (adoptClusterName (fst (autodetect e k))))))"
    from ok have "fst (encryptionGate ?k3) = None"
      by (simp add: autodetectAndValidate_error Let_def split: option.splits)
    then have "Encryption (params ?k3) \<in> {''disabled'', ''ipsec'', ''wireguard''}"
      using gate by blast
    moreover have "Encryption (params ?k3) = Encryption (params k)"
      by (simp add: detectDatapathMode_Encryption adoptClusterName_params autodetect_fst)
    ultimately show "Encryption (params k) \<in> {''disabled'', ''ipsec'', ''wireguard''}"
      by simp
  qed
  from gate [of k] err bad whole show ?thesis by blast
qed

theorem encryption_gate_closed_set_witness:
  "fst (encryptionGate (exampleInstaller KindUnknown (exampleParams\<lparr>Encryption := ''aes''\<rparr>)))
     = Some InvalidEncryptionMode
   \<and> fst (encryptionGate (exampleInstaller KindUnknown (exampleParams\<lparr>Encryption := ''aes''\<rparr>)))
     \<noteq> None
   \<and> Encryption (params (exampleInstaller KindUnknown (exampleParams\<lparr>Encryption := ''aes''\<rparr>)))
     \<in> {''aes'', ''Disabled'', ''IPsec'', ''IPSEC'', ''WireGuard'', []}"
proof -
  have mem: "Encryption (params (exampleInstaller KindUnknown (exampleParams\<lparr>Encryption := ''aes''\<rparr>)))
     \<in> {''aes'', ''Disabled'', ''IPsec'', ''IPSEC'', ''WireGuard'', []}"
    by (simp add: exampleInstaller_def exampleParams_def)
  from encryption_gate_closed_set
    [of "exampleInstaller KindUnknown (exampleParams\<lparr>Encryption := ''aes''\<rparr>)"
        "exampleRegistry []" "exampleEnv KindUnknown [] None False"] mem
  show ?thesis by blast
qed

lemma runValidationChecks_empty:
  "lookupChecks reg (Kind (flavor k)) = [] \<Longrightarrow> runValidationChecks reg k = (None, [])"
  by (simp add: runValidationChecks_def)

lemma validationChecks_None:
  "validationChecks e kind = None \<longleftrightarrow> kind \<notin> {KindMinikube, KindKind, KindAKS}"
  by (simp add: validationChecks_def)

lemma detectDatapathMode_resolved:
  "DatapathTunnel e \<noteq> [] \<Longrightarrow> DatapathAwsENI e \<noteq> [] \<Longrightarrow> DatapathGKE e \<noteq> [] \<Longrightarrow>
   DatapathAzure e \<noteq> [] \<Longrightarrow> DatapathAKSBYOCNI e \<noteq> [] \<Longrightarrow>
   fst (detectDatapathMode e w k) = None \<Longrightarrow>
   DatapathMode (params (fst (snd (detectDatapathMode e w k)))) \<noteq> []"
  by (auto simp: dm_defs split: Kind.splits prod.splits option.splits if_splits)

section \<open>The validation registry\<close>

text \<open>
  C6. For a kind with no entry in the registry the check-running stage returns no error
  and no event, so it calls no check, and a whole call of \<open>autodetectAndValidate\<close>
  calls none either. In the registry of lines 21 to 31 the kinds with no entry are the
  kinds other than minikube, Kind and AKS; the unknown kind is one of them.
\<close>

theorem unregistered_kind_runs_no_check:
  "(reg (Kind (flavor k)) = None \<longrightarrow> runValidationChecks reg k = (None, []))
   \<and> (reg (Kind (AutodetectFlavor e)) = None \<longrightarrow>
        runValidationChecks reg (fst (autodetect e k)) = (None, [])
        \<and> (\<forall>n. CheckCall n \<notin> set (snd (snd (autodetectAndValidate reg e k)))))
   \<and> (validationChecks e kind = None \<longleftrightarrow> kind \<notin> {KindMinikube, KindKind, KindAKS})"
proof -
  have stage: "\<And>k. reg (Kind (flavor k)) = None \<Longrightarrow> runValidationChecks reg k = (None, [])"
    by (simp add: runValidationChecks_empty lookupChecks_def)
  have whole: "reg (Kind (AutodetectFlavor e)) = None \<longrightarrow>
        runValidationChecks reg (fst (autodetect e k)) = (None, [])
        \<and> (\<forall>n. CheckCall n \<notin> set (snd (snd (autodetectAndValidate reg e k))))"
  proof
    assume absent: "reg (Kind (AutodetectFlavor e)) = None"
    then have none: "runValidationChecks reg (fst (autodetect e k)) = (None, [])"
      by (simp add: stage autodetect_fst)
    have "CheckCall n \<notin> set (snd (snd (autodetectAndValidate reg e k)))" for n
      using autodetectAndValidate_CheckCall [of n reg e k] none by auto
    with none show "runValidationChecks reg (fst (autodetect e k)) = (None, [])
        \<and> (\<forall>n. CheckCall n \<notin> set (snd (snd (autodetectAndValidate reg e k))))"
      by simp
  qed
  from stage [of k] whole validationChecks_None [of e kind] show ?thesis by blast
qed

theorem unregistered_kind_runs_no_check_witness:
  "validationChecks (exampleEnv KindGKE ''gke-1'' None False)
     (Kind (AutodetectFlavor (exampleEnv KindGKE ''gke-1'' None False))) = None
   \<and> runValidationChecks (validationChecks (exampleEnv KindGKE ''gke-1'' None False))
        (fst (autodetect (exampleEnv KindGKE ''gke-1'' None False)
           (exampleInstaller KindUnknown exampleParams))) = (None, [])
   \<and> (\<forall>n. CheckCall n \<notin> set (snd (snd (autodetectAndValidate
        (validationChecks (exampleEnv KindGKE ''gke-1'' None False))
        (exampleEnv KindGKE ''gke-1'' None False)
        (exampleInstaller KindUnknown exampleParams)))))"
proof -
  have absent: "validationChecks (exampleEnv KindGKE ''gke-1'' None False)
     (Kind (AutodetectFlavor (exampleEnv KindGKE ''gke-1'' None False))) = None"
    by (simp add: validationChecks_def exampleEnv_def)
  from unregistered_kind_runs_no_check
    [of "validationChecks (exampleEnv KindGKE ''gke-1'' None False)"
        "exampleInstaller KindUnknown exampleParams"
        "exampleEnv KindGKE ''gke-1'' None False" KindGKE] absent
  show ?thesis by blast
qed

section \<open>User-supplied values\<close>

text \<open>
  C2. Whatever the flavor and the environment: a \<open>DatapathMode\<close>, a
  \<open>KubeProxyReplacement\<close> or a \<open>ClusterName\<close> that is not empty before the call
  has the same value after \<open>detectDatapathMode\<close>, after the adoption of the detected
  cluster name, and after the whole of \<open>autodetectAndValidate\<close>.
\<close>

theorem user_values_kept:
  "(DatapathMode (params k) \<noteq> [] \<longrightarrow>
      DatapathMode (params (fst (snd (detectDatapathMode e w k)))) = DatapathMode (params k)
      \<and> DatapathMode (params (fst (adoptClusterName k))) = DatapathMode (params k)
      \<and> DatapathMode (params (fst (snd (autodetectAndValidate reg e k))))
          = DatapathMode (params k))
   \<and> (KubeProxyReplacement (params k) \<noteq> [] \<longrightarrow>
      KubeProxyReplacement (params (fst (snd (detectDatapathMode e w k))))
          = KubeProxyReplacement (params k)
      \<and> KubeProxyReplacement (params (fst (adoptClusterName k)))
          = KubeProxyReplacement (params k)
      \<and> KubeProxyReplacement (params (fst (snd (autodetectAndValidate reg e k))))
          = KubeProxyReplacement (params k))
   \<and> (ClusterName (params k) \<noteq> [] \<longrightarrow>
      ClusterName (params (fst (snd (detectDatapathMode e w k)))) = ClusterName (params k)
      \<and> ClusterName (params (fst (adoptClusterName k))) = ClusterName (params k)
      \<and> ClusterName (params (fst (snd (autodetectAndValidate reg e k))))
          = ClusterName (params k))"
proof -
  let ?k1 = "fst (autodetect e k)"
  let ?k2 = "fst (adoptClusterName ?k1)"
  have p1: "params ?k1 = params k"
    by (simp add: autodetect_fst)
  have dm: "DatapathMode (params k) \<noteq> [] \<longrightarrow>
      DatapathMode (params (fst (snd (detectDatapathMode e w k)))) = DatapathMode (params k)
      \<and> DatapathMode (params (fst (adoptClusterName k))) = DatapathMode (params k)
      \<and> DatapathMode (params (fst (snd (autodetectAndValidate reg e k))))
          = DatapathMode (params k)"
  proof
    assume set: "DatapathMode (params k) \<noteq> []"
    then have "DatapathMode (params ?k2) \<noteq> []"
      by (simp add: adoptClusterName_params p1)
    then have "fst (snd (detectDatapathMode e True ?k2)) = ?k2"
      by (simp add: detectDatapathMode_custom)
    then have "DatapathMode (params (fst (snd (autodetectAndValidate reg e k))))
          = DatapathMode (params k)"
      by (simp add: autodetectAndValidate_state adoptClusterName_params p1)
    with set show "DatapathMode (params (fst (snd (detectDatapathMode e w k)))) = DatapathMode (params k)
      \<and> DatapathMode (params (fst (adoptClusterName k))) = DatapathMode (params k)
      \<and> DatapathMode (params (fst (snd (autodetectAndValidate reg e k))))
          = DatapathMode (params k)"
      by (simp add: detectDatapathMode_custom adoptClusterName_params)
  qed
  have kpr: "KubeProxyReplacement (params k) \<noteq> [] \<longrightarrow>
      KubeProxyReplacement (params (fst (snd (detectDatapathMode e w k))))
          = KubeProxyReplacement (params k)
      \<and> KubeProxyReplacement (params (fst (adoptClusterName k)))
          = KubeProxyReplacement (params k)
      \<and> KubeProxyReplacement (params (fst (snd (autodetectAndValidate reg e k))))
          = KubeProxyReplacement (params k)"
  proof
    assume set: "KubeProxyReplacement (params k) \<noteq> []"
    then have "KubeProxyReplacement (params ?k2) \<noteq> []"
      by (simp add: adoptClusterName_params p1)
    then have "KubeProxyReplacement (params (fst (snd (detectDatapathMode e True ?k2))))
        = KubeProxyReplacement (params ?k2)"
      by (rule detectDatapathMode_KPR)
    then have "KubeProxyReplacement (params (fst (snd (autodetectAndValidate reg e k))))
          = KubeProxyReplacement (params k)"
      by (simp add: autodetectAndValidate_state adoptClusterName_params p1)
    with set show "KubeProxyReplacement (params (fst (snd (detectDatapathMode e w k))))
          = KubeProxyReplacement (params k)
      \<and> KubeProxyReplacement (params (fst (adoptClusterName k)))
          = KubeProxyReplacement (params k)
      \<and> KubeProxyReplacement (params (fst (snd (autodetectAndValidate reg e k))))
          = KubeProxyReplacement (params k)"
      by (simp add: detectDatapathMode_KPR adoptClusterName_params)
  qed
  have cn: "ClusterName (params k) \<noteq> [] \<longrightarrow>
      ClusterName (params (fst (snd (detectDatapathMode e w k)))) = ClusterName (params k)
      \<and> ClusterName (params (fst (adoptClusterName k))) = ClusterName (params k)
      \<and> ClusterName (params (fst (snd (autodetectAndValidate reg e k))))
          = ClusterName (params k)"
  proof
    assume set: "ClusterName (params k) \<noteq> []"
    then have "ClusterName (params (fst (snd (autodetectAndValidate reg e k))))
          = ClusterName (params k)"
      by (simp add: autodetectAndValidate_state detectDatapathMode_ClusterName
          adoptClusterName_params p1)
    with set show "ClusterName (params (fst (snd (detectDatapathMode e w k)))) = ClusterName (params k)
      \<and> ClusterName (params (fst (adoptClusterName k))) = ClusterName (params k)
      \<and> ClusterName (params (fst (snd (autodetectAndValidate reg e k))))
          = ClusterName (params k)"
      by (simp add: detectDatapathMode_ClusterName adoptClusterName_params)
  qed
  from dm kpr cn show ?thesis by blast
qed

theorem user_values_kept_witness:
  "DatapathMode (params (exampleInstaller KindUnknown presetParams)) \<noteq> []
   \<and> KubeProxyReplacement (params (exampleInstaller KindUnknown presetParams)) \<noteq> []
   \<and> ClusterName (params (exampleInstaller KindUnknown presetParams)) \<noteq> []
   \<and> DatapathMode (params (fst (snd (autodetectAndValidate
         (validationChecks (exampleEnv KindAKS ''aks_1'' None True))
         (exampleEnv KindAKS ''aks_1'' None True)
         (exampleInstaller KindUnknown presetParams))))) = ''gke''
   \<and> KubeProxyReplacement (params (fst (snd (autodetectAndValidate
         (validationChecks (exampleEnv KindAKS ''aks_1'' None True))
         (exampleEnv KindAKS ''aks_1'' None True)
         (exampleInstaller KindUnknown presetParams))))) = ''strict''
   \<and> ClusterName (params (fst (snd (autodetectAndValidate
         (validationChecks (exampleEnv KindAKS ''aks_1'' None True))
         (exampleEnv KindAKS ''aks_1'' None True)
         (exampleInstaller KindUnknown presetParams))))) = ''prod''"
proof -
  have dm: "DatapathMode (params (exampleInstaller KindUnknown presetParams)) = ''gke''"
    and kpr: "KubeProxyReplacement (params (exampleInstaller KindUnknown presetParams)) = ''strict''"
    and cn: "ClusterName (params (exampleInstaller KindUnknown presetParams)) = ''prod''"
    by (simp_all add: exampleInstaller_def presetParams_def exampleParams_def)
  have ne: "''gke'' \<noteq> []" "''strict'' \<noteq> []" "''prod'' \<noteq> []"
    by simp_all
  from user_values_kept
    [of "exampleInstaller KindUnknown presetParams" "exampleEnv KindAKS ''aks_1'' None True" True
        "validationChecks (exampleEnv KindAKS ''aks_1'' None True)"] dm kpr cn ne
  show ?thesis by metis
qed

section \<open>Idempotence of the datapath resolution\<close>

text \<open>
  C4. On an installer whose \<open>DatapathMode\<close> is not empty, \<open>detectDatapathMode\<close>
  returns no error and leaves the installer, hence every field of its parameters, as it
  was. When none of the five datapath constants is the empty string, a pass that
  returned no error has set the mode, so that a second pass, in whatever environment,
  returns no error and changes nothing.
\<close>

theorem resolution_idempotent:
  "(DatapathMode (params k) \<noteq> [] \<longrightarrow>
      fst (detectDatapathMode e w k) = None \<and> fst (snd (detectDatapathMode e w k)) = k)
   \<and> (DatapathTunnel e \<noteq> [] \<and> DatapathAwsENI e \<noteq> [] \<and> DatapathGKE e \<noteq> []
       \<and> DatapathAzure e \<noteq> [] \<and> DatapathAKSBYOCNI e \<noteq> []
       \<and> fst (detectDatapathMode e w k) = None \<longrightarrow>
      fst (detectDatapathMode e' w' (fst (snd (detectDatapathMode e w k)))) = None
      \<and> fst (snd (detectDatapathMode e' w' (fst (snd (detectDatapathMode e w k)))))
          = fst (snd (detectDatapathMode e w k)))"
proof -
  have once: "\<And>e w k. DatapathMode (params k) \<noteq> [] \<Longrightarrow>
      fst (detectDatapathMode e w k) = None \<and> fst (snd (detectDatapathMode e w k)) = k"
    by (simp add: detectDatapathMode_custom)
  have twice: "DatapathTunnel e \<noteq> [] \<and> DatapathAwsENI e \<noteq> [] \<and> DatapathGKE e \<noteq> []
       \<and> DatapathAzure e \<noteq> [] \<and> DatapathAKSBYOCNI e \<noteq> []
       \<and> fst (detectDatapathMode e w k) = None \<longrightarrow>
      fst (detectDatapathMode e' w' (fst (snd (detectDatapathMode e w k)))) = None
      \<and> fst (snd (detectDatapathMode e' w' (fst (snd (detectDatapathMode e w k)))))
          = fst (snd (detectDatapathMode e w k))"
    using once [of "fst (snd (detectDatapathMode e w k))" e' w']
      detectDatapathMode_resolved [of e w k] by blast
  from once [of k e w] twice show ?thesis by blast
qed

theorem resolution_idempotent_witness:
  "DatapathMode (params (exampleInstaller KindKind (exampleParams\<lparr>DatapathMode := ''tunnel''\<rparr>))) \<noteq> []
   \<and> fst (detectDatapathMode (exampleEnv KindKind [] None False) True
        (exampleInstaller KindKind (exampleParams\<lparr>DatapathMode := ''tunnel''\<rparr>))) = None
   \<and> fst (snd (detectDatapathMode (exampleEnv KindKind [] None False) True
        (exampleInstaller KindKind (exampleParams\<lparr>DatapathMode := ''tunnel''\<rparr>))))
      = exampleInstaller KindKind (exampleParams\<lparr>DatapathMode := ''tunnel''\<rparr>)
   \<and> fst (detectDatapathMode (exampleEnv KindAKS [] None True) True
        (exampleInstaller KindAKS exampleParams)) = None
   \<and> fst (detectDatapathMode (exampleEnv KindAKS [] None False) False
        (fst (snd (detectDatapathMode (exampleEnv KindAKS [] None True) True
           (exampleInstaller KindAKS exampleParams))))) = None
   \<and> fst (snd (detectDatapathMode (exampleEnv KindAKS [] None False) False
        (fst (snd (detectDatapathMode (exampleEnv KindAKS [] None True) True
           (exampleInstaller KindAKS exampleParams))))))
      = fst (snd (detectDatapathMode (exampleEnv KindAKS [] None True) True
           (exampleInstaller KindAKS exampleParams)))"
proof -
  have preset: "DatapathMode (params (exampleInstaller KindKind
      (exampleParams\<lparr>DatapathMode := ''tunnel''\<rparr>))) \<noteq> []"
    by (simp add: exampleInstaller_def exampleParams_def)
  have nonempty: "DatapathTunnel (exampleEnv KindAKS [] None True) \<noteq> []"
    "DatapathAwsENI (exampleEnv KindAKS [] None True) \<noteq> []"
    "DatapathGKE (exampleEnv KindAKS [] None True) \<noteq> []"
    "DatapathAzure (exampleEnv KindAKS [] None True) \<noteq> []"
    "DatapathAKSBYOCNI (exampleEnv KindAKS [] None True) \<noteq> []"
    by (simp_all add: exampleEnv_def)
  have first: "fst (detectDatapathMode (exampleEnv KindAKS [] None True) True
        (exampleInstaller KindAKS exampleParams)) = None"
    by (simp add: dm_defs example_defs)
  from preset nonempty first
    resolution_idempotent
      [of "exampleInstaller KindKind (exampleParams\<lparr>DatapathMode := ''tunnel''\<rparr>)"
          "exampleEnv KindKind [] None False" True]
    resolution_idempotent
      [of "exampleInstaller KindAKS exampleParams" "exampleEnv KindAKS [] None True" True
          "exampleEnv KindAKS [] None False" False]
  show ?thesis by blast
qed

lemma runChecks_no_gateEvent: "list_all (\<lambda>ev. \<not> gateEvent ev) (snd (runChecks k cs))"
  by (induction cs) (auto split: prod.splits option.splits)

lemma runValidationChecks_no_gateEvent:
  "list_all (\<lambda>ev. \<not> gateEvent ev) (snd (runValidationChecks reg k))"
  using runChecks_no_gateEvent [of k "lookupChecks reg (Kind (flavor k))"]
  by (auto simp: runValidationChecks_def split: prod.splits)

lemma autodetect_no_gateEvent: "list_all (\<lambda>ev. \<not> gateEvent ev) (snd (autodetect e k))"
  by (simp add: autodetect_def Let_def)

lemma adoptClusterName_no_gateEvent:
  "list_all (\<lambda>ev. \<not> gateEvent ev) (snd (adoptClusterName k))"
  by (simp add: adoptClusterName_def Let_def)

lemma detectDatapathMode_no_gateEvent:
  "list_all (\<lambda>ev. \<not> gateEvent ev) (snd (snd (detectDatapathMode e w k)))"
  by (auto simp: dm_defs split: Kind.splits prod.splits option.splits)

lemma autodetectAndValidate_resolution_error:
  "fst (runValidationChecks reg (fst (autodetect e k))) = None \<Longrightarrow>
   fst (detectDatapathMode e True (fst (adoptClusterName (fst (autodetect e k))))) = Some err \<Longrightarrow>
   autodetectAndValidate reg e k =
     (Some err,
      fst (snd (detectDatapathMode e True (fst (adoptClusterName (fst (autodetect e k)))))),
      snd (autodetect e k) @ snd (runValidationChecks reg (fst (autodetect e k)))
        @ [LogVersion (chartVersion (fst (autodetect e k)))]
        @ snd (adoptClusterName (fst (autodetect e k)))
        @ snd (snd (detectDatapathMode e True (fst (adoptClusterName (fst (autodetect e k)))))))"
  by (auto simp: autodetectAndValidate_def split: prod.splits option.splits)

lemma detectDatapathMode_Kind:
  "DatapathMode (params k) = [] \<Longrightarrow> Kind (flavor k) = KindKind \<Longrightarrow>
   fst (detectDatapathMode e w k) = None
   \<and> params (fst (snd (detectDatapathMode e w k))) =
       (params k)\<lparr>DatapathMode := DatapathTunnel e,
          KubeProxyReplacement :=
            (if w \<and> KubeProxyReplacement (params k) = [] then ''disabled''
             else KubeProxyReplacement (params k))\<rparr>"
  by (simp add: dm_defs)

lemma detectDatapathMode_other:
  "DatapathMode (params k) = [] \<Longrightarrow>
   Kind (flavor k) \<notin> {KindKind, KindAKS} \<Longrightarrow>
   fst (detectDatapathMode e w k) = None
   \<and> params (fst (snd (detectDatapathMode e w k))) =
       (params k)\<lparr>DatapathMode :=
          (if Kind (flavor k) = KindEKS then DatapathAwsENI e
           else if Kind (flavor k) = KindGKE then DatapathGKE e
           else DatapathTunnel e)\<rparr>"
  by (simp add: dm_defs split: Kind.splits)

lemma detectDatapathMode_AKS_error:
  "DatapathMode (params k) = [] \<Longrightarrow> Kind (flavor k) = KindAKS \<Longrightarrow>
   azureLookup e k = (Some err, az) \<Longrightarrow>
   detectDatapathMode e w k = (Some err, k\<lparr>params := (params k)\<lparr>Azure := az\<rparr>\<rparr>, [])"
  by (simp add: dm_defs)

lemma detectDatapathMode_AKS_success:
  "DatapathMode (params k) = [] \<Longrightarrow> Kind (flavor k) = KindAKS \<Longrightarrow>
   azureLookup e k = (None, az) \<Longrightarrow>
   fst (detectDatapathMode e w k) = None
   \<and> params (fst (snd (detectDatapathMode e w k))) =
       (params k)\<lparr>Azure := az,
          DatapathMode := (if IsBYOCNI az then DatapathAKSBYOCNI e else DatapathAzure e),
          KubeProxyReplacement :=
            (if w \<and> KubeProxyReplacement (params k) = [] then ''disabled''
             else KubeProxyReplacement (params k))\<rparr>"
  by (simp add: dm_defs)

section \<open>The rule table of the datapath resolution\<close>

text \<open>
  C3, as the code has it. With \<open>DatapathMode\<close> unset, \<open>detectDatapathMode\<close>
  returns no error for every kind but AKS and sets the mode: tunnel for Kind, tunnel for
  minikube, the AWS ENI mode for EKS, the GKE mode for GKE, and tunnel for every kind the
  switch does not name, the unknown one among them. Only for Kind is another field
  written: \<open>KubeProxyReplacement\<close> becomes "disabled" when it was unset and the
  caller passed \<open>withKPR = true\<close>, as \<open>autodetectAndValidate\<close> does; with
  \<open>withKPR = false\<close> it keeps its value.
\<close>

theorem datapath_rule_table:
  "DatapathMode (params k) = [] \<Longrightarrow>
   (Kind (flavor k) \<noteq> KindAKS \<longrightarrow> fst (detectDatapathMode e w k) = None)
   \<and> (Kind (flavor k) = KindKind \<longrightarrow>
        params (fst (snd (detectDatapathMode e w k))) =
          (params k)\<lparr>DatapathMode := DatapathTunnel e,
             KubeProxyReplacement :=
               (if w \<and> KubeProxyReplacement (params k) = [] then ''disabled''
                else KubeProxyReplacement (params k))\<rparr>)
   \<and> (Kind (flavor k) = KindMinikube \<longrightarrow>
        params (fst (snd (detectDatapathMode e w k))) =
          (params k)\<lparr>DatapathMode := DatapathTunnel e\<rparr>)
   \<and> (Kind (flavor k) = KindEKS \<longrightarrow>
        params (fst (snd (detectDatapathMode e w k))) =
          (params k)\<lparr>DatapathMode := DatapathAwsENI e\<rparr>)
   \<and> (Kind (flavor k) = KindGKE \<longrightarrow>
        params (fst (snd (detectDatapathMode e w k))) =
          (params k)\<lparr>DatapathMode := DatapathGKE e\<rparr>)
   \<and> (Kind (flavor k) \<notin> {KindKind, KindMinikube, KindEKS, KindGKE, KindAKS} \<longrightarrow>
        params (fst (snd (detectDatapathMode e w k))) =
          (params k)\<lparr>DatapathMode := DatapathTunnel e\<rparr>)"
proof -
  assume unset: "DatapathMode (params k) = []"
  have ok: "Kind (flavor k) \<noteq> KindAKS \<longrightarrow> fst (detectDatapathMode e w k) = None"
    using detectDatapathMode_Kind [OF unset, of e w] detectDatapathMode_other [OF unset, of e w]
    by auto
  have kind: "Kind (flavor k) = KindKind \<longrightarrow>
        params (fst (snd (detectDatapathMode e w k))) =
          (params k)\<lparr>DatapathMode := DatapathTunnel e,
             KubeProxyReplacement :=
               (if w \<and> KubeProxyReplacement (params k) = [] then ''disabled''
                else KubeProxyReplacement (params k))\<rparr>"
    using detectDatapathMode_Kind [OF unset, of e w] by simp
  have minikube: "Kind (flavor k) = KindMinikube \<longrightarrow>
        params (fst (snd (detectDatapathMode e w k))) =
          (params k)\<lparr>DatapathMode := DatapathTunnel e\<rparr>"
    using detectDatapathMode_other [OF unset, of e w] by simp
  have eks: "Kind (flavor k) = KindEKS \<longrightarrow>
        params (fst (snd (detectDatapathMode e w k))) =
          (params k)\<lparr>DatapathMode := DatapathAwsENI e\<rparr>"
    using detectDatapathMode_other [OF unset, of e w] by simp
  have gke: "Kind (flavor k) = KindGKE \<longrightarrow>
        params (fst (snd (detectDatapathMode e w k))) =
          (params k)\<lparr>DatapathMode := DatapathGKE e\<rparr>"
    using detectDatapathMode_other [OF unset, of e w] by simp
  have other: "Kind (flavor k) \<notin> {KindKind, KindMinikube, KindEKS, KindGKE, KindAKS} \<longrightarrow>
        params (fst (snd (detectDatapathMode e w k))) =
          (params k)\<lparr>DatapathMode := DatapathTunnel e\<rparr>"
    using detectDatapathMode_other [OF unset, of e w] by simp
  from ok kind minikube eks gke other show ?thesis by blast
qed

theorem datapath_rule_table_witness:
  "DatapathMode (params (exampleInstaller KindKind exampleParams)) = []
   \<and> Kind (flavor (exampleInstaller KindKind exampleParams)) = KindKind
   \<and> Kind (flavor (exampleInstaller KindKind exampleParams)) \<noteq> KindAKS
   \<and> fst (detectDatapathMode (exampleEnv KindKind [] None False) True
        (exampleInstaller KindKind exampleParams)) = None
   \<and> params (fst (snd (detectDatapathMode (exampleEnv KindKind [] None False) True
        (exampleInstaller KindKind exampleParams))))
      = exampleParams\<lparr>DatapathMode := ''tunnel'', KubeProxyReplacement := ''disabled''\<rparr>"
proof -
  have unset: "DatapathMode (params (exampleInstaller KindKind exampleParams)) = []"
    and kpr: "KubeProxyReplacement (params (exampleInstaller KindKind exampleParams)) = []"
    and kind: "Kind (flavor (exampleInstaller KindKind exampleParams)) = KindKind"
    and p: "params (exampleInstaller KindKind exampleParams) = exampleParams"
    and tunnel: "DatapathTunnel (exampleEnv KindKind [] None False) = ''tunnel''"
    by (simp_all add: exampleInstaller_def exampleParams_def exampleEnv_def)
  from datapath_rule_table [OF unset, of "exampleEnv KindKind [] None False" True]
    unset kpr kind p tunnel
  show ?thesis by simp
qed

text \<open>
  C3 as worded has \<open>detectDatapathMode\<close> set \<open>KubeProxyReplacement\<close> to
  "disabled" on Kind whenever it was unset, and has no such side effect on any flavor
  but Kind. Called with \<open>withKPR = false\<close> on a Kind cluster with nothing set, it
  returns no error and leaves the field empty; called with \<open>withKPR = true\<close> on an
  AKS cluster, which is none of the four kinds C3 names, it sets the field to
  "disabled".
\<close>

theorem datapath_rule_table_counterexample:
  "DatapathMode (params (exampleInstaller KindKind exampleParams)) = []
   \<and> KubeProxyReplacement (params (exampleInstaller KindKind exampleParams)) = []
   \<and> Kind (flavor (exampleInstaller KindKind exampleParams)) = KindKind
   \<and> fst (detectDatapathMode (exampleEnv KindKind [] None False) False
        (exampleInstaller KindKind exampleParams)) = None
   \<and> KubeProxyReplacement (params (fst (snd (detectDatapathMode
        (exampleEnv KindKind [] None False) False
        (exampleInstaller KindKind exampleParams))))) \<noteq> ''disabled''
   \<and> Kind (flavor (exampleInstaller KindAKS exampleParams))
        \<notin> {KindKind, KindMinikube, KindEKS, KindGKE}
   \<and> KubeProxyReplacement (params (exampleInstaller KindAKS exampleParams)) = []
   \<and> KubeProxyReplacement (params (fst (snd (detectDatapathMode
        (exampleEnv KindAKS [] None False) True
        (exampleInstaller KindAKS exampleParams))))) = ''disabled''"
  by (simp add: dm_defs example_defs)

section \<open>The AKS branch\<close>

text \<open>
  C5, as the code has it. On AKS with \<open>DatapathMode\<close> unset: when the Azure lookup
  returns an error, \<open>detectDatapathMode\<close> returns that error and the mode stays
  unset, and \<open>autodetectAndValidate\<close>, once the checks have passed, returns the
  same error with the mode unset and without any event of the cluster-name or the
  encryption gate, whatever the cluster name and the encryption mode are. When the
  lookup succeeds, the mode is the BYOCNI mode if the lookup left the BYOCNI flag set
  and the Azure mode otherwise, and \<open>KubeProxyReplacement\<close> becomes "disabled" when
  it was unset and \<open>withKPR\<close> is true, as it is in \<open>autodetectAndValidate\<close>.
\<close>

theorem aks_resolution:
  "(Kind (flavor k) = KindAKS \<and> DatapathMode (params k) = []
      \<and> azureLookup e k = (Some err, az) \<longrightarrow>
      fst (detectDatapathMode e w k) = Some err
      \<and> DatapathMode (params (fst (snd (detectDatapathMode e w k)))) = [])
   \<and> (Kind (flavor k) = KindAKS \<and> DatapathMode (params k) = []
      \<and> azureLookup e k = (None, az) \<longrightarrow>
      fst (detectDatapathMode e w k) = None
      \<and> DatapathMode (params (fst (snd (detectDatapathMode e w k))))
          = (if IsBYOCNI az then DatapathAKSBYOCNI e else DatapathAzure e)
      \<and> KubeProxyReplacement (params (fst (snd (detectDatapathMode e w k))))
          = (if w \<and> KubeProxyReplacement (params k) = [] then ''disabled''
             else KubeProxyReplacement (params k)))
   \<and> (Kind (AutodetectFlavor e) = KindAKS \<and> DatapathMode (params k0) = []
      \<and> fst (runValidationChecks reg (fst (autodetect e k0))) = None
      \<and> azureLookup e (fst (adoptClusterName (fst (autodetect e k0)))) = (Some err, az) \<longrightarrow>
      fst (autodetectAndValidate reg e k0) = Some err
      \<and> DatapathMode (params (fst (snd (autodetectAndValidate reg e k0)))) = []
      \<and> list_all (\<lambda>ev. \<not> gateEvent ev) (snd (snd (autodetectAndValidate reg e k0))))
   \<and> (Kind (AutodetectFlavor e) = KindAKS \<and> DatapathMode (params k0) = []
      \<and> fst (runValidationChecks reg (fst (autodetect e k0))) = None
      \<and> azureLookup e (fst (adoptClusterName (fst (autodetect e k0)))) = (None, az) \<longrightarrow>
      DatapathMode (params (fst (snd (autodetectAndValidate reg e k0))))
          = (if IsBYOCNI az then DatapathAKSBYOCNI e else DatapathAzure e)
      \<and> KubeProxyReplacement (params (fst (snd (autodetectAndValidate reg e k0))))
          = (if KubeProxyReplacement (params k0) = [] then ''disabled''
             else KubeProxyReplacement (params k0)))"
proof -
  let ?k1 = "fst (autodetect e k0)"
  let ?k2 = "fst (adoptClusterName ?k1)"
  have failure: "Kind (flavor k) = KindAKS \<and> DatapathMode (params k) = []
      \<and> azureLookup e k = (Some err, az) \<longrightarrow>
      fst (detectDatapathMode e w k) = Some err
      \<and> DatapathMode (params (fst (snd (detectDatapathMode e w k)))) = []"
    by (simp add: detectDatapathMode_AKS_error)
  have success: "Kind (flavor k) = KindAKS \<and> DatapathMode (params k) = []
      \<and> azureLookup e k = (None, az) \<longrightarrow>
      fst (detectDatapathMode e w k) = None
      \<and> DatapathMode (params (fst (snd (detectDatapathMode e w k))))
          = (if IsBYOCNI az then DatapathAKSBYOCNI e else DatapathAzure e)
      \<and> KubeProxyReplacement (params (fst (snd (detectDatapathMode e w k))))
          = (if w \<and> KubeProxyReplacement (params k) = [] then ''disabled''
             else KubeProxyReplacement (params k))"
    by (simp add: detectDatapathMode_AKS_success)
  have k2: "Kind (AutodetectFlavor e) = KindAKS \<Longrightarrow> DatapathMode (params k0) = [] \<Longrightarrow>
      Kind (flavor ?k2) = KindAKS \<and> DatapathMode (params ?k2) = []
      \<and> KubeProxyReplacement (params ?k2) = KubeProxyReplacement (params k0)"
    by (simp add: adoptClusterName_flavor adoptClusterName_params autodetect_fst)
  have abort: "Kind (AutodetectFlavor e) = KindAKS \<and> DatapathMode (params k0) = []
      \<and> fst (runValidationChecks reg ?k1) = None
      \<and> azureLookup e ?k2 = (Some err, az) \<longrightarrow>
      fst (autodetectAndValidate reg e k0) = Some err
      \<and> DatapathMode (params (fst (snd (autodetectAndValidate reg e k0)))) = []
      \<and> list_all (\<lambda>ev. \<not> gateEvent ev) (snd (snd (autodetectAndValidate reg e k0)))"
  proof
    assume h: "Kind (AutodetectFlavor e) = KindAKS \<and> DatapathMode (params k0) = []
      \<and> fst (runValidationChecks reg ?k1) = None
      \<and> azureLookup e ?k2 = (Some err, az)"
    with k2 have dm: "detectDatapathMode e True ?k2
        = (Some err, ?k2\<lparr>params := (params ?k2)\<lparr>Azure := az\<rparr>\<rparr>, [])"
      by (simp add: detectDatapathMode_AKS_error)
    with h have whole: "autodetectAndValidate reg e k0 =
       (Some err, ?k2\<lparr>params := (params ?k2)\<lparr>Azure := az\<rparr>\<rparr>,
        snd (autodetect e k0) @ snd (runValidationChecks reg ?k1)
          @ [LogVersion (chartVersion ?k1)] @ snd (adoptClusterName ?k1) @ [])"
      using autodetectAndValidate_resolution_error [of reg e k0 err] by simp
    show "fst (autodetectAndValidate reg e k0) = Some err
      \<and> DatapathMode (params (fst (snd (autodetectAndValidate reg e k0)))) = []
      \<and> list_all (\<lambda>ev. \<not> gateEvent ev) (snd (snd (autodetectAndValidate reg e k0)))"
      using h k2 autodetect_no_gateEvent [of e k0] runValidationChecks_no_gateEvent [of reg ?k1]
        adoptClusterName_no_gateEvent [of ?k1]
      by (simp add: whole)
  qed
  have resolved: "Kind (AutodetectFlavor e) = KindAKS \<and> DatapathMode (params k0) = []
      \<and> fst (runValidationChecks reg ?k1) = None
      \<and> azureLookup e ?k2 = (None, az) \<longrightarrow>
      DatapathMode (params (fst (snd (autodetectAndValidate reg e k0))))
          = (if IsBYOCNI az then DatapathAKSBYOCNI e else DatapathAzure e)
      \<and> KubeProxyReplacement (params (fst (snd (autodetectAndValidate reg e k0))))
          = (if KubeProxyReplacement (params k0) = [] then ''disabled''
             else KubeProxyReplacement (params k0))"
  proof
    assume h: "Kind (AutodetectFlavor e) = KindAKS \<and> DatapathMode (params k0) = []
      \<and> fst (runValidationChecks reg ?k1) = None
      \<and> azureLookup e ?k2 = (None, az)"
    with k2 have "params (fst (snd (detectDatapathMode e True ?k2))) =
       (params ?k2)\<lparr>Azure := az,
          DatapathMode := (if IsBYOCNI az then DatapathAKSBYOCNI e else DatapathAzure e),
          KubeProxyReplacement :=
            (if True \<and> KubeProxyReplacement (params ?k2) = [] then ''disabled''
             else KubeProxyReplacement (params ?k2))\<rparr>"
      using detectDatapathMode_AKS_success [of ?k2 e az True] by blast
    with h k2 show "DatapathMode (params (fst (snd (autodetectAndValidate reg e k0))))
          = (if IsBYOCNI az then DatapathAKSBYOCNI e else DatapathAzure e)
      \<and> KubeProxyReplacement (params (fst (snd (autodetectAndValidate reg e k0))))
          = (if KubeProxyReplacement (params k0) = [] then ''disabled''
             else KubeProxyReplacement (params k0))"
      by (simp add: autodetectAndValidate_state)
  qed
  from failure success abort resolved show ?thesis by blast
qed

theorem aks_resolution_witness:
  "Kind (AutodetectFlavor (exampleEnv KindAKS [] (Some (External ''az'')) False)) = KindAKS
   \<and> DatapathMode (params (exampleInstaller KindUnknown badGateParams)) = []
   \<and> fst (runValidationChecks
        (validationChecks (exampleEnv KindAKS [] (Some (External ''az'')) False))
        (fst (autodetect (exampleEnv KindAKS [] (Some (External ''az'')) False)
           (exampleInstaller KindUnknown badGateParams)))) = None
   \<and> fst (autodetectAndValidate
        (validationChecks (exampleEnv KindAKS [] (Some (External ''az'')) False))
        (exampleEnv KindAKS [] (Some (External ''az'')) False)
        (exampleInstaller KindUnknown badGateParams)) = Some (External ''az'')
   \<and> DatapathMode (params (fst (snd (autodetectAndValidate
        (validationChecks (exampleEnv KindAKS [] (Some (External ''az'')) False))
        (exampleEnv KindAKS [] (Some (External ''az'')) False)
        (exampleInstaller KindUnknown badGateParams))))) = []"
proof -
  let ?e = "exampleEnv KindAKS [] (Some (External ''az'')) False"
  let ?k = "exampleInstaller KindUnknown badGateParams"
  have kind: "Kind (AutodetectFlavor ?e) = KindAKS"
    by (simp add: exampleEnv_def)
  have unset: "DatapathMode (params ?k) = []"
    by (simp add: exampleInstaller_def badGateParams_def exampleParams_def)
  have checks: "fst (runValidationChecks (validationChecks ?e) (fst (autodetect ?e ?k))) = None"
    by (simp add: runValidationChecks_def lookupChecks_def validationChecks_def autodetect_def
        checkDisabled_def example_defs badGateParams_def)
  have lookup: "azureLookup ?e (fst (adoptClusterName (fst (autodetect ?e ?k))))
      = (Some (External ''az''), \<lparr>IsBYOCNI = False\<rparr>)"
    by (simp add: exampleEnv_def)
  from aks_resolution
    [of "fst (adoptClusterName (fst (autodetect ?e ?k)))" ?e "External ''az''"
        "\<lparr>IsBYOCNI = False\<rparr>" True ?k "validationChecks ?e"]
    kind unset checks lookup
  show ?thesis by blast
qed

text \<open>
  C5 as worded has either success branch set \<open>KubeProxyReplacement\<close> to "disabled"
  whenever it was unset. Called with \<open>withKPR = false\<close> on an AKS cluster whose
  lookup succeeds, \<open>detectDatapathMode\<close> returns no error and leaves the field empty.
\<close>

theorem aks_resolution_counterexample:
  "Kind (flavor (exampleInstaller KindAKS exampleParams)) = KindAKS
   \<and> DatapathMode (params (exampleInstaller KindAKS exampleParams)) = []
   \<and> KubeProxyReplacement (params (exampleInstaller KindAKS exampleParams)) = []
   \<and> azureLookup (exampleEnv KindAKS [] None True) (exampleInstaller KindAKS exampleParams)
      = (None, \<lparr>IsBYOCNI = True\<rparr>)
   \<and> fst (detectDatapathMode (exampleEnv KindAKS [] None True) False
        (exampleInstaller KindAKS exampleParams)) = None
   \<and> KubeProxyReplacement (params (fst (snd (detectDatapathMode
        (exampleEnv KindAKS [] None True) False
        (exampleInstaller KindAKS exampleParams))))) \<noteq> ''disabled''"
  by (simp add: dm_defs example_defs)

lemma runChecks_first_failure:
  "\<forall>p \<in> set pre. checkDisabled (params k) (Name p) \<or> Check p k = None \<Longrightarrow>
   \<not> checkDisabled (params k) (Name c) \<Longrightarrow> Check c k = Some err \<Longrightarrow>
   runChecks k (pre @ c # post) =
     (Some (ValidationCheckFailed (Kind (flavor k)) err),
      map (skipOrCall (params k)) pre
        @ [CheckCall (Name c), LogCheckFailed (Name c) err, LogDisableHint (Name c)])"
  by (induction pre) (auto simp: skipOrCall_def)

lemma runChecks_all_pass:
  "\<forall>p \<in> set cs. checkDisabled (params k) (Name p) \<or> Check p k = None \<Longrightarrow>
   runChecks k cs = (None, map (skipOrCall (params k)) cs)"
  by (induction cs) (auto simp: skipOrCall_def)

lemma runChecks_CheckCall:
  "CheckCall n \<in> set (snd (runChecks k cs)) \<Longrightarrow> \<not> checkDisabled (params k) n"
  by (induction cs) (auto split: prod.splits option.splits if_splits)

lemma runValidationChecks_CheckCall:
  "CheckCall n \<in> set (snd (runValidationChecks reg k)) \<Longrightarrow> \<not> checkDisabled (params k) n"
  using runChecks_CheckCall [of n k "lookupChecks reg (Kind (flavor k))"]
  by (auto simp: runValidationChecks_def split: prod.splits if_splits)

lemma autodetectAndValidate_check_error:
  "runValidationChecks reg (fst (autodetect e k)) = (Some err, evs) \<Longrightarrow>
   autodetectAndValidate reg e k = (Some err, fst (autodetect e k), snd (autodetect e k) @ evs)"
  by (auto simp: autodetectAndValidate_def split: prod.splits option.splits)

lemma withDisabledCheck_simps:
  "flavor (withDisabledCheck n k) = flavor k"
  "chartVersion (withDisabledCheck n k) = chartVersion k"
  "DatapathMode (params (withDisabledCheck n k)) = DatapathMode (params k)"
  "KubeProxyReplacement (params (withDisabledCheck n k)) = KubeProxyReplacement (params k)"
  "ClusterName (params (withDisabledCheck n k)) = ClusterName (params k)"
  "Encryption (params (withDisabledCheck n k)) = Encryption (params k)"
  "IPAM (params (withDisabledCheck n k)) = IPAM (params k)"
  "Azure (params (withDisabledCheck n k)) = Azure (params k)"
  "DisableChecks (params (withDisabledCheck n k)) = DisableChecks (params k) @ [n]"
  by (simp_all add: withDisabledCheck_def)

lemma checkDisabled_withDisabledCheck:
  "checkDisabled (params (withDisabledCheck n k)) name \<longleftrightarrow> checkDisabled (params k) name \<or> name = n"
  by (auto simp: checkDisabled_iff withDisabledCheck_simps)

lemma runChecks_withDisabledCheck:
  "\<forall>c \<in> set cs. Name c \<noteq> n \<and> Check c (withDisabledCheck n k) = Check c k \<Longrightarrow>
   runChecks (withDisabledCheck n k) cs = runChecks k cs"
  by (induction cs)
    (simp_all add: checkDisabled_withDisabledCheck withDisabledCheck_simps split: option.splits)

lemma runValidationChecks_withDisabledCheck:
  "\<forall>c \<in> set (lookupChecks reg (Kind (flavor k))).
      Name c \<noteq> n \<and> Check c (withDisabledCheck n k) = Check c k \<Longrightarrow>
   runValidationChecks reg (withDisabledCheck n k) = runValidationChecks reg k"
  by (simp add: runValidationChecks_def runChecks_withDisabledCheck withDisabledCheck_simps)

lemma autodetect_withDisabledCheck:
  "autodetect e (withDisabledCheck n k) =
     (withDisabledCheck n (fst (autodetect e k)), snd (autodetect e k))"
  by (simp add: autodetect_def Let_def withDisabledCheck_def)

lemma adoptClusterName_withDisabledCheck:
  "adoptClusterName (withDisabledCheck n k) =
     (withDisabledCheck n (fst (adoptClusterName k)), snd (adoptClusterName k))"
  by (simp add: adoptClusterName_def Let_def withDisabledCheck_def)

lemma detectDatapathMode_withDisabledCheck:
  "azureLookup e (withDisabledCheck n k) = azureLookup e k \<Longrightarrow>
   detectDatapathMode e w (withDisabledCheck n k) =
     (fst (detectDatapathMode e w k),
      withDisabledCheck n (fst (snd (detectDatapathMode e w k))),
      snd (snd (detectDatapathMode e w k)))"
proof (cases "DatapathMode (params k) = []")
  case False
  then show ?thesis
    by (simp add: detectDatapathMode_def withDisabledCheck_simps)
next
  case True
  assume same: "azureLookup e (withDisabledCheck n k) = azureLookup e k"
  obtain r az where look: "azureLookup e k = (r, az)"
    by (cases "azureLookup e k")
  have aks: "azureAutodetect e (withDisabledCheck n k) =
      (r, withDisabledCheck n (k\<lparr>params := (params k)\<lparr>Azure := az\<rparr>\<rparr>))"
    using same look by (simp add: azureAutodetect_def withDisabledCheck_def)
  have aks0: "azureAutodetect e k = (r, k\<lparr>params := (params k)\<lparr>Azure := az\<rparr>\<rparr>)"
    using look by (simp add: azureAutodetect_def)
  have set: "\<And>m k. setDatapathMode m (withDisabledCheck n k) = withDisabledCheck n (setDatapathMode m k)"
    by (simp add: setDatapathMode_def withDisabledCheck_def)
  have kpr: "\<And>k. disableKPR w (withDisabledCheck n k) =
      (withDisabledCheck n (fst (disableKPR w k)), snd (disableKPR w k))"
    by (simp add: disableKPR_def withDisabledCheck_def)
  have det: "\<And>k evs. detected (withDisabledCheck n k, evs) =
      (fst (detected (k, evs)), withDisabledCheck n (fst (snd (detected (k, evs)))),
       snd (snd (detected (k, evs))))"
    by (simp add: detected_def withDisabledCheck_simps)
  have det': "\<And>p. detected (withDisabledCheck n (fst p), snd p) =
      (fst (detected p), withDisabledCheck n (fst (snd (detected p))), snd (snd (detected p)))"
    using det by (metis prod.collapse)
  show ?thesis
  proof (cases "Kind (flavor k) = KindAKS")
    case False
    with True show ?thesis
      by (cases "Kind (flavor k)")
        (simp_all add: detectDatapathMode_def withDisabledCheck_simps set kpr det det')
  next
    case aksk: True
    show ?thesis
    proof (cases r)
      case None
      with True aksk aks aks0 show ?thesis
        by (simp add: detectDatapathMode_def withDisabledCheck_simps set kpr det det')
    next
      case (Some err)
      with True aksk aks aks0 show ?thesis
        by (simp add: detectDatapathMode_def withDisabledCheck_simps)
    qed
  qed
qed

lemma gates_withDisabledCheck:
  "clusterNameGate (withDisabledCheck n k) = clusterNameGate k"
  "encryptionGate (withDisabledCheck n k) = encryptionGate k"
  "logIPAM (withDisabledCheck n k) = logIPAM k"
  by (simp_all add: clusterNameGate_def encryptionGate_def logIPAM_def withDisabledCheck_simps)

lemma autodetectAndValidate_unfold:
  "autodetectAndValidate reg e k =
     (let k1 = fst (autodetect e k);
          rv = runValidationChecks reg k1;
          rd = detectDatapathMode e True (fst (adoptClusterName k1));
          k3 = fst (snd rd);
          evs = snd (autodetect e k) @ snd rv @ [LogVersion (chartVersion k1)]
                  @ snd (adoptClusterName k1) @ snd (snd rd)
      in if fst rv \<noteq> None then (fst rv, k1, snd (autodetect e k) @ snd rv)
         else if fst rd \<noteq> None then (fst rd, k3, evs)
         else if fst (clusterNameGate k3) \<noteq> None
         then (fst (clusterNameGate k3), k3, evs @ logIPAM k3 @ snd (clusterNameGate k3))
         else (fst (encryptionGate k3), k3,
               evs @ logIPAM k3 @ snd (clusterNameGate k3) @ snd (encryptionGate k3)))"
  by (auto simp: autodetectAndValidate_def Let_def split: prod.splits option.splits)

lemma autodetectAndValidate_withDisabledCheck:
  assumes names: "\<forall>c \<in> set (lookupChecks reg (Kind (AutodetectFlavor e))).
      Name c \<noteq> n \<and> (\<forall>k'. Check c (withDisabledCheck n k') = Check c k')"
    and lookup: "\<forall>k'. azureLookup e (withDisabledCheck n k') = azureLookup e k'"
  shows "autodetectAndValidate reg e (withDisabledCheck n k) =
     (fst (autodetectAndValidate reg e k),
      withDisabledCheck n (fst (snd (autodetectAndValidate reg e k))),
      snd (snd (autodetectAndValidate reg e k)))"
proof -
  let ?k1 = "fst (autodetect e k)"
  have "Kind (flavor ?k1) = Kind (AutodetectFlavor e)"
    by (simp add: autodetect_fst)
  with names have checks:
    "runValidationChecks reg (withDisabledCheck n ?k1) = runValidationChecks reg ?k1"
    by (intro runValidationChecks_withDisabledCheck) simp
  have dm: "\<And>k. detectDatapathMode e True (withDisabledCheck n k) =
     (fst (detectDatapathMode e True k),
      withDisabledCheck n (fst (snd (detectDatapathMode e True k))),
      snd (snd (detectDatapathMode e True k)))"
    using lookup by (simp add: detectDatapathMode_withDisabledCheck)
  show ?thesis
    by (simp add: autodetectAndValidate_unfold [of reg e k]
        autodetectAndValidate_unfold [of reg e "withDisabledCheck n k"] Let_def
        autodetect_withDisabledCheck checks adoptClusterName_withDisabledCheck dm
        gates_withDisabledCheck withDisabledCheck_simps)
qed

section \<open>The first failing check\<close>

text \<open>
  C7, as the code has it. Let the checks of the detected kind be \<open>pre @ c # post\<close>,
  every check of \<open>pre\<close> disabled or passing, and \<open>c\<close> not disabled and failing
  with \<open>err\<close>. Then \<open>autodetectAndValidate\<close> returns
  \<open>ValidationCheckFailed kind err\<close>, the error of the check wrapped with the kind;
  the installer has the detected flavor and its parameters are untouched; and the events
  end with the call of \<open>c\<close>, the failure line and the hint, both of which carry the
  name of \<open>c\<close>. No check of \<open>post\<close> is called and no later stage runs: the line
  with the chart version, which opens the later stages, is not logged. The name of the
  check is in the log lines, not in the returned error.
\<close>

theorem first_failing_check_stops_the_call:
  assumes checks: "reg (Kind (AutodetectFlavor e)) = Some (pre @ c # post)"
    and before: "\<forall>p \<in> set pre. checkDisabled (params k) (Name p)
        \<or> Check p (k\<lparr>flavor := AutodetectFlavor e\<rparr>) = None"
    and enabled: "\<not> checkDisabled (params k) (Name c)"
    and fails: "Check c (k\<lparr>flavor := AutodetectFlavor e\<rparr>) = Some err"
  shows "autodetectAndValidate reg e k =
     (Some (ValidationCheckFailed (Kind (AutodetectFlavor e)) err),
      k\<lparr>flavor := AutodetectFlavor e\<rparr>,
      snd (autodetect e k)
        @ LogRunningChecks (Kind (AutodetectFlavor e)) # map (skipOrCall (params k)) pre
        @ [CheckCall (Name c), LogCheckFailed (Name c) err, LogDisableHint (Name c)])
     \<and> (\<forall>v. LogVersion v \<notin> set (snd (snd (autodetectAndValidate reg e k))))"
proof -
  let ?k1 = "k\<lparr>flavor := AutodetectFlavor e\<rparr>"
  have loop: "runChecks ?k1 (pre @ c # post) =
     (Some (ValidationCheckFailed (Kind (flavor ?k1)) err),
      map (skipOrCall (params ?k1)) pre
        @ [CheckCall (Name c), LogCheckFailed (Name c) err, LogDisableHint (Name c)])"
    using before enabled fails by (intro runChecks_first_failure) simp_all
  have "runValidationChecks reg ?k1 =
     (Some (ValidationCheckFailed (Kind (AutodetectFlavor e)) err),
      LogRunningChecks (Kind (AutodetectFlavor e)) # map (skipOrCall (params k)) pre
        @ [CheckCall (Name c), LogCheckFailed (Name c) err, LogDisableHint (Name c)])"
    using checks loop by (simp add: runValidationChecks_def lookupChecks_def)
  then have whole: "autodetectAndValidate reg e k =
     (Some (ValidationCheckFailed (Kind (AutodetectFlavor e)) err), ?k1,
      snd (autodetect e k)
        @ LogRunningChecks (Kind (AutodetectFlavor e)) # map (skipOrCall (params k)) pre
        @ [CheckCall (Name c), LogCheckFailed (Name c) err, LogDisableHint (Name c)])"
    using autodetectAndValidate_check_error [of reg e k] by (simp add: autodetect_fst)
  have "LogVersion v \<notin> set (snd (snd (autodetectAndValidate reg e k)))" for v
    by (auto simp: whole autodetect_def Let_def skipOrCall_def)
  with whole show ?thesis by simp
qed

theorem first_failing_check_stops_the_call_witness:
  "exampleRegistry threeChecks (Kind (AutodetectFlavor (exampleEnv KindMinikube [] None False)))
     = Some ([passCheck ''zero''] @ failCheck ''first'' (External ''too old'')
         # [failCheck ''second'' (External ''other'')])
   \<and> autodetectAndValidate (exampleRegistry threeChecks)
        (exampleEnv KindMinikube [] None False) (exampleInstaller KindUnknown exampleParams)
      = (Some (ValidationCheckFailed KindMinikube (External ''too old'')),
         exampleInstaller KindMinikube exampleParams,
         [LogKind KindMinikube, LogRunningChecks KindMinikube, CheckCall ''zero'',
          CheckCall ''first'', LogCheckFailed ''first'' (External ''too old''),
          LogDisableHint ''first''])"
proof -
  let ?e = "exampleEnv KindMinikube [] None False"
  let ?k = "exampleInstaller KindUnknown exampleParams"
  have checks: "exampleRegistry threeChecks (Kind (AutodetectFlavor ?e))
     = Some ([passCheck ''zero''] @ failCheck ''first'' (External ''too old'')
         # [failCheck ''second'' (External ''other'')])"
    by (simp add: exampleRegistry_def threeChecks_def exampleEnv_def)
  have before: "\<forall>p \<in> set [passCheck ''zero'']. checkDisabled (params ?k) (Name p)
        \<or> Check p (?k\<lparr>flavor := AutodetectFlavor ?e\<rparr>) = None"
    by (simp add: passCheck_def)
  have enabled: "\<not> checkDisabled (params ?k) (Name (failCheck ''first'' (External ''too old'')))"
    by (simp add: checkDisabled_def example_defs)
  have fails: "Check (failCheck ''first'' (External ''too old''))
      (?k\<lparr>flavor := AutodetectFlavor ?e\<rparr>) = Some (External ''too old'')"
    by (simp add: failCheck_def)
  have evs: "snd (autodetect ?e ?k) = [LogKind KindMinikube]"
    "skipOrCall (params ?k) (passCheck ''zero'') = CheckCall ''zero''"
    "Name (failCheck ''first'' (External ''too old'')) = ''first''"
    "Kind (AutodetectFlavor ?e) = KindMinikube"
    "?k\<lparr>flavor := AutodetectFlavor ?e\<rparr> = exampleInstaller KindMinikube exampleParams"
    by (simp_all add: autodetect_def skipOrCall_def checkDisabled_def example_defs)
  from first_failing_check_stops_the_call
    [where reg = "exampleRegistry threeChecks" and e = ?e and k = ?k
       and pre = "[passCheck ''zero'']" and c = "failCheck ''first'' (External ''too old'')"
       and post = "[failCheck ''second'' (External ''other'')]" and err = "External ''too old''",
     OF checks before enabled fails] checks
  show ?thesis by (simp add: evs)
qed

text \<open>
  C7 as worded has the returned error identify the name of the failing check. Two
  checks with different names that fail with the same error make
  \<open>autodetectAndValidate\<close> return the same error, which holds the kind and the
  error of the check only.
\<close>

theorem first_failing_check_stops_the_call_counterexample:
  "Name (failCheck ''first'' (External ''too old'')) \<noteq> Name (failCheck ''second'' (External ''too old''))
   \<and> fst (autodetectAndValidate (exampleRegistry [failCheck ''first'' (External ''too old'')])
        (exampleEnv KindMinikube [] None False) (exampleInstaller KindUnknown exampleParams))
      = Some (ValidationCheckFailed KindMinikube (External ''too old''))
   \<and> fst (autodetectAndValidate (exampleRegistry [failCheck ''second'' (External ''too old'')])
        (exampleEnv KindMinikube [] None False) (exampleInstaller KindUnknown exampleParams))
      = Some (ValidationCheckFailed KindMinikube (External ''too old''))"
  by (simp add: autodetectAndValidate_def autodetect_def runValidationChecks_def
      lookupChecks_def checkDisabled_def example_defs)

section \<open>Disabled checks\<close>

text \<open>
  C8. A name in \<open>DisableChecks\<close> is the name of no \<open>Check\<close> call made by
  \<open>autodetectAndValidate\<close>, so a check of the detected kind with such a name is never
  called. Adding to \<open>DisableChecks\<close> a name that no check of the detected kind has
  changes neither the returned error nor the events, and the installer left differs
  by that name only; this holds for checks and an Azure lookup that do not read
  \<open>DisableChecks\<close>.
\<close>

theorem disabled_checks_are_never_called:
  "(n \<in> set (DisableChecks (params k)) \<longrightarrow>
      CheckCall n \<notin> set (snd (snd (autodetectAndValidate reg e k))))
   \<and> ((\<forall>c \<in> set (lookupChecks reg (Kind (AutodetectFlavor e))).
          Name c \<noteq> n \<and> (\<forall>k'. Check c (withDisabledCheck n k') = Check c k'))
       \<and> (\<forall>k'. azureLookup e (withDisabledCheck n k') = azureLookup e k') \<longrightarrow>
      autodetectAndValidate reg e (withDisabledCheck n k) =
        (fst (autodetectAndValidate reg e k),
         withDisabledCheck n (fst (snd (autodetectAndValidate reg e k))),
         snd (snd (autodetectAndValidate reg e k))))"
proof -
  have skipped: "n \<in> set (DisableChecks (params k)) \<longrightarrow>
      CheckCall n \<notin> set (snd (snd (autodetectAndValidate reg e k)))"
  proof
    assume "n \<in> set (DisableChecks (params k))"
    then have "checkDisabled (params (fst (autodetect e k))) n"
      by (simp add: checkDisabled_iff autodetect_fst)
    then have "CheckCall n \<notin> set (snd (runValidationChecks reg (fst (autodetect e k))))"
      using runValidationChecks_CheckCall by blast
    then show "CheckCall n \<notin> set (snd (snd (autodetectAndValidate reg e k)))"
      using autodetectAndValidate_CheckCall by blast
  qed
  have unknown: "(\<forall>c \<in> set (lookupChecks reg (Kind (AutodetectFlavor e))).
          Name c \<noteq> n \<and> (\<forall>k'. Check c (withDisabledCheck n k') = Check c k'))
       \<and> (\<forall>k'. azureLookup e (withDisabledCheck n k') = azureLookup e k') \<longrightarrow>
      autodetectAndValidate reg e (withDisabledCheck n k) =
        (fst (autodetectAndValidate reg e k),
         withDisabledCheck n (fst (snd (autodetectAndValidate reg e k))),
         snd (snd (autodetectAndValidate reg e k)))"
    using autodetectAndValidate_withDisabledCheck [of reg e n k] by blast
  from skipped unknown show ?thesis by blast
qed

theorem disabled_checks_are_never_called_witness:
  "''minikube-version'' \<in> set (DisableChecks (params (exampleInstaller KindUnknown disabledParams)))
   \<and> CheckCall ''minikube-version'' \<notin> set (snd (snd (autodetectAndValidate
        (exampleRegistry oldMinikube) (exampleEnv KindMinikube [] None False)
        (exampleInstaller KindUnknown disabledParams))))
   \<and> lookupChecks (exampleRegistry oldMinikube)
        (Kind (AutodetectFlavor (exampleEnv KindMinikube [] None False))) = oldMinikube
   \<and> ''no-such-check'' \<notin> set (map Name oldMinikube)
   \<and> autodetectAndValidate (exampleRegistry oldMinikube) (exampleEnv KindMinikube [] None False)
        (withDisabledCheck ''no-such-check'' (exampleInstaller KindUnknown exampleParams))
      = (fst (autodetectAndValidate (exampleRegistry oldMinikube)
           (exampleEnv KindMinikube [] None False) (exampleInstaller KindUnknown exampleParams)),
         withDisabledCheck ''no-such-check'' (fst (snd (autodetectAndValidate
           (exampleRegistry oldMinikube) (exampleEnv KindMinikube [] None False)
           (exampleInstaller KindUnknown exampleParams)))),
         snd (snd (autodetectAndValidate (exampleRegistry oldMinikube)
           (exampleEnv KindMinikube [] None False) (exampleInstaller KindUnknown exampleParams))))"
proof -
  let ?e = "exampleEnv KindMinikube [] None False"
  have disabled: "''minikube-version''
      \<in> set (DisableChecks (params (exampleInstaller KindUnknown disabledParams)))"
    by (simp add: exampleInstaller_def disabledParams_def exampleParams_def)
  have names: "\<forall>c \<in> set (lookupChecks (exampleRegistry oldMinikube) (Kind (AutodetectFlavor ?e))).
      Name c \<noteq> ''no-such-check''
      \<and> (\<forall>k'. Check c (withDisabledCheck ''no-such-check'' k') = Check c k')"
    by (simp add: lookupChecks_def exampleRegistry_def oldMinikube_def exampleEnv_def
        failCheck_def)
  have lookup: "\<forall>k'. azureLookup ?e (withDisabledCheck ''no-such-check'' k') = azureLookup ?e k'"
    by (simp add: exampleEnv_def)
  have registered: "lookupChecks (exampleRegistry oldMinikube) (Kind (AutodetectFlavor ?e))
      = oldMinikube"
    "''no-such-check'' \<notin> set (map Name oldMinikube)"
    by (simp_all add: lookupChecks_def exampleRegistry_def oldMinikube_def exampleEnv_def
        failCheck_def)
  from disabled names lookup registered
    disabled_checks_are_never_called
      [of "''minikube-version''" "exampleInstaller KindUnknown disabledParams"
          "exampleRegistry oldMinikube" ?e]
    disabled_checks_are_never_called
      [of "''no-such-check''" "exampleInstaller KindUnknown exampleParams"
          "exampleRegistry oldMinikube" ?e]
  show ?thesis by blast
qed

section \<open>The pattern of cluster names\<close>

text \<open>
  The matcher agrees with the meaning of the regular expressions, and the pattern of
  line 33 matches exactly the names made of a first character in \<open>[a-z0-9]\<close>,
  any number of characters in \<open>[-a-z0-9]\<close> and a last character in
  \<open>[a-z0-9]\<close>: the first and the last character are two characters, so a name that
  matches has at least two.
\<close>

lemma repeat_Cons:
  "c # s \<in> repeat L \<longleftrightarrow> (\<exists>u v. s = u @ v \<and> c # u \<in> L \<and> v \<in> repeat L)"
proof
  assume "c # s \<in> repeat L"
  then show "\<exists>u v. s = u @ v \<and> c # u \<in> L \<and> v \<in> repeat L"
  proof (induction "c # s" rule: repeat.induct)
    case (repeat_more u v)
    show ?case
    proof (cases u)
      case Nil
      with repeat_more show ?thesis by simp
    next
      case (Cons a u')
      with repeat_more have "s = u' @ v" "c # u' \<in> L" "v \<in> repeat L"
        by auto
      then show ?thesis by blast
    qed
  qed
next
  assume "\<exists>u v. s = u @ v \<and> c # u \<in> L \<and> v \<in> repeat L"
  then obtain u v where "s = u @ v" "c # u \<in> L" "v \<in> repeat L"
    by blast
  then show "c # s \<in> repeat L"
    using repeat_more [of "c # u" L v] by simp
qed

lemma nullable_language: "nullable r \<longleftrightarrow> [] \<in> language r"
  by (induction r) (auto intro: repeat_empty)

lemma deriv_language: "s \<in> language (deriv c r) \<longleftrightarrow> c # s \<in> language r"
proof (induction r arbitrary: s)
  case (Cat r1 r2)
  have "c # s \<in> language (Cat r1 r2) \<longleftrightarrow>
      ([] \<in> language r1 \<and> c # s \<in> language r2)
      \<or> (\<exists>u v. s = u @ v \<and> c # u \<in> language r1 \<and> v \<in> language r2)"
    by (auto simp: Cons_eq_append_conv)
  with Cat show ?case
    by (auto simp: nullable_language)
next
  case (Rep r)
  then show ?case
    by (auto simp: repeat_Cons)
qed auto

lemma matches_language: "matches r s \<longleftrightarrow> s \<in> language r"
  by (induction s arbitrary: r) (simp_all add: nullable_language deriv_language)

lemma repeat_Class: "repeat {[c] | c. P c} = {m. \<forall>c \<in> set m. P c}"
proof
  show "repeat {[c] | c. P c} \<subseteq> {m. \<forall>c \<in> set m. P c}"
  proof
    fix m assume "m \<in> repeat {[c] | c. P c}"
    then show "m \<in> {m. \<forall>c \<in> set m. P c}"
      by (induction rule: repeat.induct) auto
  qed
  show "{m. \<forall>c \<in> set m. P c} \<subseteq> repeat {[c] | c. P c}"
  proof
    fix m assume "m \<in> {m. \<forall>c \<in> set m. P c}"
    then have "\<forall>c \<in> set m. P c" by simp
    then show "m \<in> repeat {[c] | c. P c}"
    proof (induction m)
      case Nil
      show ?case by (rule repeat_empty)
    next
      case (Cons a m)
      then have "[a] \<in> {[c] | c. P c}" "m \<in> repeat {[c] | c. P c}" by auto
      then have "[a] @ m \<in> repeat {[c] | c. P c}" by (rule repeat_more)
      then show ?case by simp
    qed
  qed
qed

lemma inClass_lowerOrDigit:
  "inClass [(CHR ''a'', CHR ''z''), (CHR ''0'', CHR ''9'')] c = lowerOrDigit c"
  by (simp add: lowerOrDigit_def)

lemma inClass_hyphen_lowerOrDigit:
  "inClass [(CHR ''-'', CHR ''-''), (CHR ''a'', CHR ''z''), (CHR ''0'', CHR ''9'')] c
     = (c = CHR ''-'' \<or> lowerOrDigit c)"
  using antisym [of "CHR ''-''" c] by (auto simp: lowerOrDigit_def)

lemma language_Cat_iff:
  "s \<in> language (Cat r t) \<longleftrightarrow> (\<exists>u v. s = u @ v \<and> u \<in> language r \<and> v \<in> language t)"
  by auto

lemma language_Class_iff: "s \<in> language (Class rs) \<longleftrightarrow> (\<exists>c. s = [c] \<and> inClass rs c)"
  by auto

lemma language_Rep_Class_iff:
  "s \<in> language (Rep (Class rs)) \<longleftrightarrow> (\<forall>c \<in> set s. inClass rs c)"
proof -
  have "language (Rep (Class rs)) = {m. \<forall>c \<in> set m. inClass rs c}"
    using repeat_Class [of "inClass rs"] by simp
  then show ?thesis by simp
qed

lemma matches_first_middle_last:
  "matches (Cat (Class ra) (Group (Cat (Rep (Class rh)) (Class ra)))) s \<longleftrightarrow>
     (\<exists>a m b. s = a # m @ [b] \<and> inClass ra a \<and> inClass ra b \<and> (\<forall>c \<in> set m. inClass rh c))"
proof
  assume "matches (Cat (Class ra) (Group (Cat (Rep (Class rh)) (Class ra)))) s"
  then have "s \<in> language (Cat (Class ra) (Group (Cat (Rep (Class rh)) (Class ra))))"
    unfolding matches_language .
  then obtain u v where s: "s = u @ v" and u: "u \<in> language (Class ra)"
    and v: "v \<in> language (Group (Cat (Rep (Class rh)) (Class ra)))"
    unfolding language_Cat_iff by blast
  from u obtain a where a: "u = [a]" "inClass ra a"
    unfolding language_Class_iff by blast
  from v have "v \<in> language (Cat (Rep (Class rh)) (Class ra))"
    unfolding language.simps(7) .
  then obtain m y where vs: "v = m @ y" and m: "m \<in> language (Rep (Class rh))"
    and y: "y \<in> language (Class ra)"
    unfolding language_Cat_iff by blast
  from y obtain b where b: "y = [b]" "inClass ra b"
    unfolding language_Class_iff by blast
  from m have mid: "\<forall>c \<in> set m. inClass rh c"
    unfolding language_Rep_Class_iff .
  have "s = a # m @ [b]"
    by (simp add: s a vs b)
  with a b mid show "\<exists>a m b. s = a # m @ [b] \<and> inClass ra a \<and> inClass ra b
      \<and> (\<forall>c \<in> set m. inClass rh c)"
    by blast
next
  assume "\<exists>a m b. s = a # m @ [b] \<and> inClass ra a \<and> inClass ra b \<and> (\<forall>c \<in> set m. inClass rh c)"
  then obtain a m b where s: "s = a # m @ [b]" and a: "inClass ra a" and b: "inClass ra b"
    and mid: "\<forall>c \<in> set m. inClass rh c"
    by blast
  from a have u: "[a] \<in> language (Class ra)"
    unfolding language_Class_iff by blast
  from b have y: "[b] \<in> language (Class ra)"
    unfolding language_Class_iff by blast
  from mid have m: "m \<in> language (Rep (Class rh))"
    unfolding language_Rep_Class_iff .
  from m y have "m @ [b] \<in> language (Cat (Rep (Class rh)) (Class ra))"
    unfolding language_Cat_iff by blast
  then have "m @ [b] \<in> language (Group (Cat (Rep (Class rh)) (Class ra)))"
    unfolding language.simps(7) .
  with u have "[a] @ (m @ [b]) \<in> language (Cat (Class ra) (Group (Cat (Rep (Class rh)) (Class ra))))"
    unfolding language_Cat_iff [of _ "Class ra"] by blast
  then have "s \<in> language (Cat (Class ra) (Group (Cat (Rep (Class rh)) (Class ra))))"
    by (simp only: s append_Cons append_Nil)
  then show "matches (Cat (Class ra) (Group (Cat (Rep (Class rh)) (Class ra)))) s"
    unfolding matches_language .
qed

lemma MatchString_clusterNameValidation:
  "MatchString clusterNameValidation s \<longleftrightarrow>
     (\<exists>a m b. s = a # m @ [b] \<and> lowerOrDigit a \<and> lowerOrDigit b
        \<and> (\<forall>c \<in> set m. c = CHR ''-'' \<or> lowerOrDigit c))"
  unfolding MatchString_def clusterNameValidation_def matches_first_middle_last
    inClass_lowerOrDigit inClass_hyphen_lowerOrDigit ..

lemma MatchString_clusterNameValidation_length:
  "MatchString clusterNameValidation s \<Longrightarrow> 2 \<le> length s"
proof -
  assume "MatchString clusterNameValidation s"
  then obtain a m b where "s = a # m @ [b]"
    unfolding MatchString_clusterNameValidation by (elim exE conjE)
  then show ?thesis by simp
qed

lemma clusterNameGate_empty:
  "ClusterName (params k) = [] \<Longrightarrow>
   clusterNameGate k = (Some InvalidClusterName, [LogClusterNameInvalid []])"
  by (simp add: clusterNameGate_def MatchString_def clusterNameValidation_def)

lemma adoptClusterName_nothing:
  "ClusterName (params k) = [] \<Longrightarrow> FlavorClusterName (flavor k) = [] \<Longrightarrow>
   adoptClusterName k = (k, [])"
  by (simp add: adoptClusterName_def)

section \<open>The cluster-name gate\<close>

text \<open>
  C1, as the code behaves. The cluster-name gate of lines 149 to 157 accepts
  "my-cluster", rejects "My-Cluster", "-abc" and "abc-" with the pattern-mismatch
  error and "ab.cd" with the error for dots. The one-character name "a" does not go
  through: the group \<open>([-a-z0-9]*[a-z0-9])\<close> of the pattern has no \<open>?\<close> after
  it, so a second character is required, and both the gate and a whole call of
  \<open>autodetectAndValidate\<close> return the pattern-mismatch error for "a".
\<close>

theorem single_character_name_rejected:
  "gateOn ''a'' = Some InvalidClusterName
   \<and> fst (autodetectAndValidate (validationChecks (exampleEnv KindUnknown [] None False))
        (exampleEnv KindUnknown [] None False)
        (exampleInstaller KindUnknown (exampleParams\<lparr>ClusterName := ''a''\<rparr>)))
      = Some InvalidClusterName
   \<and> gateOn ''my-cluster'' = None
   \<and> gateOn ''My-Cluster'' = Some InvalidClusterName
   \<and> gateOn ''-abc'' = Some InvalidClusterName
   \<and> gateOn ''abc-'' = Some InvalidClusterName
   \<and> gateOn ''ab.cd'' = Some InvalidClusterNameDots"
proof -
  have gate: "gateOn ''a'' = Some InvalidClusterName"
    "gateOn ''my-cluster'' = None"
    "gateOn ''My-Cluster'' = Some InvalidClusterName"
    "gateOn ''-abc'' = Some InvalidClusterName"
    "gateOn ''abc-'' = Some InvalidClusterName"
    "gateOn ''ab.cd'' = Some InvalidClusterNameDots"
    by (simp_all add: gateOn_def clusterNameGate_def MatchString_def clusterNameValidation_def
        exampleInstaller_def exampleParams_def)
  have whole: "fst (autodetectAndValidate (validationChecks (exampleEnv KindUnknown [] None False))
        (exampleEnv KindUnknown [] None False)
        (exampleInstaller KindUnknown (exampleParams\<lparr>ClusterName := ''a''\<rparr>)))
      = Some InvalidClusterName"
    by (simp add: autodetectAndValidate_def autodetect_def runValidationChecks_def
        lookupChecks_def validationChecks_def adoptClusterName_def dm_defs clusterNameGate_def
        MatchString_def clusterNameValidation_def logIPAM_def example_defs)
  from gate whole show ?thesis by simp
qed

section \<open>The empty cluster name\<close>

text \<open>
  C10, as the code has it. When the caller gives no cluster name and the detected
  flavor has none, \<open>autodetectAndValidate\<close> never returns success and leaves the
  name empty. The error is the pattern-mismatch error whenever the validation checks
  and the datapath resolution return no error; otherwise it is the error of the first
  of these two stages that fails. The datapath resolution can only fail on AKS with
  \<open>DatapathMode\<close> unset.
\<close>

theorem empty_cluster_name_never_accepted:
  "ClusterName (params k) = [] \<Longrightarrow> FlavorClusterName (AutodetectFlavor e) = [] \<Longrightarrow>
   fst (autodetectAndValidate reg e k) \<noteq> None
   \<and> ClusterName (params (fst (snd (autodetectAndValidate reg e k)))) = []
   \<and> fst (autodetectAndValidate reg e k) =
       (case fst (runValidationChecks reg (fst (autodetect e k))) of
          Some err \<Rightarrow> Some err
        | None \<Rightarrow>
            (case fst (detectDatapathMode e True (fst (autodetect e k))) of
               Some err \<Rightarrow> Some err
             | None \<Rightarrow> Some InvalidClusterName))
   \<and> (Kind (AutodetectFlavor e) \<noteq> KindAKS \<or> DatapathMode (params k) \<noteq> [] \<longrightarrow>
        fst (detectDatapathMode e True (fst (autodetect e k))) = None)"
proof -
  assume unset: "ClusterName (params k) = []"
    and undetected: "FlavorClusterName (AutodetectFlavor e) = []"
  let ?k1 = "fst (autodetect e k)"
  let ?k3 = "fst (snd (detectDatapathMode e True ?k1))"
  have adopt: "adoptClusterName ?k1 = (?k1, [])"
    using unset undetected by (simp add: adoptClusterName_nothing autodetect_fst)
  have "ClusterName (params ?k3) = []"
    using unset by (simp add: detectDatapathMode_ClusterName autodetect_fst)
  then have gate: "fst (clusterNameGate ?k3) = Some InvalidClusterName"
    by (simp add: clusterNameGate_empty)
  have err: "fst (autodetectAndValidate reg e k) =
       (case fst (runValidationChecks reg ?k1) of
          Some err \<Rightarrow> Some err
        | None \<Rightarrow>
            (case fst (detectDatapathMode e True ?k1) of
               Some err \<Rightarrow> Some err
             | None \<Rightarrow> Some InvalidClusterName))"
    by (simp add: autodetectAndValidate_error Let_def adopt gate split: option.splits)
  then have fails: "fst (autodetectAndValidate reg e k) \<noteq> None"
    by (simp split: option.splits)
  have name: "ClusterName (params (fst (snd (autodetectAndValidate reg e k)))) = []"
  proof -
    have "params ?k1 = params k"
      by (simp add: autodetect_fst)
    with unset show ?thesis
      by (simp add: autodetectAndValidate_state adopt detectDatapathMode_ClusterName)
  qed
  have resolve: "Kind (AutodetectFlavor e) \<noteq> KindAKS \<or> DatapathMode (params k) \<noteq> [] \<longrightarrow>
        fst (detectDatapathMode e True ?k1) = None"
    by (auto simp: dm_defs autodetect_fst split: Kind.splits prod.splits option.splits)
  from fails name err resolve show ?thesis by simp
qed

theorem empty_cluster_name_never_accepted_witness:
  "ClusterName (params (exampleInstaller KindUnknown exampleParams)) = []
   \<and> FlavorClusterName (AutodetectFlavor (exampleEnv KindGKE [] None False)) = []
   \<and> fst (runValidationChecks (validationChecks (exampleEnv KindGKE [] None False))
        (fst (autodetect (exampleEnv KindGKE [] None False)
           (exampleInstaller KindUnknown exampleParams)))) = None
   \<and> fst (autodetectAndValidate (validationChecks (exampleEnv KindGKE [] None False))
        (exampleEnv KindGKE [] None False) (exampleInstaller KindUnknown exampleParams))
      = Some InvalidClusterName"
proof -
  let ?e = "exampleEnv KindGKE [] None False"
  let ?k = "exampleInstaller KindUnknown exampleParams"
  have unset: "ClusterName (params ?k) = []"
    by (simp add: exampleInstaller_def exampleParams_def)
  have undetected: "FlavorClusterName (AutodetectFlavor ?e) = []"
    by (simp add: exampleEnv_def)
  have checks: "fst (runValidationChecks (validationChecks ?e) (fst (autodetect ?e ?k))) = None"
    by (simp add: runValidationChecks_def lookupChecks_def validationChecks_def autodetect_def
        exampleEnv_def)
  have kind: "Kind (AutodetectFlavor ?e) \<noteq> KindAKS"
    by (simp add: exampleEnv_def)
  from empty_cluster_name_never_accepted [OF unset undetected, of "validationChecks ?e"]
    kind checks unset undetected
  show ?thesis by simp
qed

text \<open>
  C10 as worded has the call always fail with the pattern-mismatch error. On an AKS
  cluster whose Azure lookup fails, with no cluster name given or detected, the call
  returns the error of the lookup.
\<close>

theorem empty_cluster_name_never_accepted_counterexample:
  "ClusterName (params (exampleInstaller KindUnknown exampleParams)) = []
   \<and> FlavorClusterName (AutodetectFlavor (exampleEnv KindAKS [] (Some (External ''az'')) False)) = []
   \<and> fst (autodetectAndValidate
        (validationChecks (exampleEnv KindAKS [] (Some (External ''az'')) False))
        (exampleEnv KindAKS [] (Some (External ''az'')) False)
        (exampleInstaller KindUnknown exampleParams)) = Some (External ''az'')
   \<and> Some (External ''az'') \<noteq> Some InvalidClusterName"
  by (simp add: autodetectAndValidate_def autodetect_def runValidationChecks_def
      lookupChecks_def validationChecks_def checkDisabled_def adoptClusterName_def dm_defs
      example_defs)

end
